theory Spec2Isabelle
  imports Complex_Main
begin

text \<open>
  A model of the MoviePilot plugin \<open>NullbrSearch\<close> and of its two HTTP clients, as they
  are written in \<open>plugins.v2/nullbrsearch/__init__.py\<close> (called \<open>__init__.py\<close> below),
  \<open>plugins.v2/nullbr_search/cms_client.py\<close> and \<open>plugins.v2/nullbr_search/nullbr_client.py\<close>.

  The program is sequential Python with effects: HTTP requests, readings of the clock,
  replies to the user and mutable attributes. The model passes the state explicitly.
  A method becomes a function that takes the outside world (what the network and the
  clock will answer), the objects it mutates and the run-time state (the trace of the
  events so far and the number of clock readings), and returns its result with the new
  objects and the new state. A raised exception is the \<open>Inl\<close> of a sum.

  The JSON that the program receives is taken at the shape of its containers: where
  the program expects an object it gets a dictionary, where it expects a list it gets
  a list. The fields of a hit, of a resource record and of a reply of the transfer
  system can be any scalar (\<open>None\<close>, a boolean, an integer, a string), so that the
  truth tests of the source and the slices it takes of a field (\<open>TypeError\<close> on
  anything but a string) are part of the model.

  What the program takes from the Python interpreter and the model cannot fix once
  and for all is a parameter: the classification of the characters beyond ASCII as
  digits, and the limit on the number of digits that \<open>int\<close> converts.
\<close>

section \<open>Python values\<close>

text \<open>
  A Python \<open>str\<close> is the sequence of its Unicode code points, so that the full-width
  question mark U+FF1F of the message protocol is one character. \<open>py\<close> turns an ASCII
  literal of the source into such a string.
\<close>

type_synonym pystr = "nat list"

abbreviation py :: "string \<Rightarrow> pystr" where
  "py s \<equiv> map of_char s"

text \<open>
  The scalar values found in the JSON objects the plugin reads (\<open>None\<close>, booleans,
  integers, strings), and Python's truth value of each: \<open>if x:\<close> and \<open>not x\<close> in
  the source are \<open>truthy x\<close> and \<open>\<not> truthy x\<close> here.
\<close>

datatype pyval = PNone | PBool bool | PInt int | PStr pystr

fun truthy :: "pyval \<Rightarrow> bool" where
  "truthy PNone = False"
| "truthy (PBool b) = b"
| "truthy (PInt n) = (n \<noteq> 0)"
| "truthy (PStr s) = (s \<noteq> [])"

text \<open>
  A JSON object whose values are scalars: a search hit, a resource record, the \<open>data\<close>
  object of a login reply. It is the list of its key-value pairs, read with \<open>map_of\<close>.
  \<open>d.get(k)\<close> is \<open>getv d k\<close> (\<open>None\<close> when the key is absent), \<open>d.get(k, v)\<close> is
  \<open>get_default d k v\<close>.
\<close>

type_synonym pydict = "(pystr \<times> pyval) list"

definition getv :: "pydict \<Rightarrow> pystr \<Rightarrow> pyval" where
  "getv d k = (case map_of d k of None \<Rightarrow> PNone | Some v \<Rightarrow> v)"

definition get_default :: "pydict \<Rightarrow> pystr \<Rightarrow> pyval \<Rightarrow> pyval" where
  "get_default d k v = (case map_of d k of None \<Rightarrow> v | Some x \<Rightarrow> x)"

section \<open>Exceptions and HTTP outcomes\<close>

text \<open>
  What \<open>session.get\<close> and \<open>session.post\<close> of the \<open>requests\<close> library can raise instead
  of returning a response. \<open>ConnectTimeout\<close> and \<open>ReadTimeout\<close> are subclasses of
  \<open>Timeout\<close>; \<open>OtherRequestException\<close> is a \<open>RequestException\<close> that is neither a
  timeout nor a \<open>ConnectionError\<close>; \<open>NonRequestException\<close> is any other \<open>Exception\<close>.
\<close>

datatype net_fault =
  Timeout | ConnectTimeout | ReadTimeout | ConnectionError
  | OtherRequestException | NonRequestException

datatype exn =
  NetFault net_fault
  | HTTPError nat
  | JSONDecodeError
  | ValueError
  | KeyError
  | AttributeError
  | TypeError

text \<open>
  The outcome of one HTTP call: an exception, or a response with its status code and its
  body parsed as JSON (\<open>None\<close> when the body is not JSON, so that \<open>response.json()\<close>
  raises).
\<close>

datatype 'b http_result = Raises net_fault | Response nat "'b option"

text \<open>\<open>response.raise_for_status()\<close> raises \<open>HTTPError\<close> for a 4xx or 5xx status.\<close>

definition raise_for_status :: "nat \<Rightarrow> bool" where
  "raise_for_status st \<longleftrightarrow> 400 \<le> st \<and> st < 600"

section \<open>Requests, events and the outside world\<close>

text \<open>The \<open>timeout\<close> argument of a request: one number, or a (connect, read) pair.\<close>

datatype timeout = Single nat | ConnectRead nat nat

text \<open>
  The requests of \<open>CloudSyncMediaClient\<close>: the login with the configured user name and
  password, and the enqueue of a share link. Both go through the client's session, whose
  \<open>Authorization\<close> header (when set) is \<open>Bearer\<close> followed by the value recorded here.
\<close>

datatype cms_request =
  LoginReq pystr pystr "pyval option" timeout
  | ShareDownReq pyval "pyval option" timeout

text \<open>The JSON object of a reply of the transfer system: \<open>{code, data, msg}\<close>.\<close>

record cms_json =
  js_code :: pyval
  js_data :: "pydict option"
  js_msg :: "pyval option"

text \<open>
  The requests of \<open>NullbrApiClient\<close>: the URL path, the query parameters (only the search
  has any), the \<open>X-APP-ID\<close> and optional \<open>X-API-KEY\<close> headers, whether the session's
  proxies are used, and the timeout.
\<close>

datatype endpoint =
  SearchEP pystr int
  | MovieEP pyval pystr
  | TvEP pyval pystr

record get_request =
  rq_endpoint :: endpoint
  rq_app_id :: pystr
  rq_api_key :: "pystr option"
  rq_use_proxy :: bool
  rq_timeout :: timeout

text \<open>
  The JSON of a resource lookup maps a resource type to its list of records: it is the
  list of these pairs, read with \<open>map_of\<close>, and the empty list is the empty object.
  The JSON of a search carries the list of hits under \<open>items\<close> (an absent list is the
  empty one).
\<close>

type_synonym resources = "(pystr \<times> pydict list) list"

text \<open>
  The replies the plugin posts through \<open>post_message\<close>: one constructor for each message
  that the handlers below post, with the values its text is built from.
\<close>

datatype message =
  MsgSwitchSearch pystr
  | MsgSearchResults pystr "pydict list" nat
  | MsgSearchError pystr exn
  | MsgSearchExpired
  | MsgInvalidNumber nat
  | MsgDetails pydict
  | MsgFetchingByPriority pyval
  | MsgSelectionError exn
  | MsgNeedApiKey
  | MsgMissingTmdbId
  | MsgFetching pyval pystr
  | MsgSwitchSearchType pyval pystr
  | MsgGetResourcesError exn
  | MsgNoResources pyval pystr
  | MsgResources pyval pystr "pydict list" nat bool
  | MsgFetched pyval pystr
  | MsgSwitchSearchAll pyval
  | MsgPriorityError exn
  | MsgCmsDisabled
  | MsgResourceExpired
  | MsgInvalidResourceNumber nat
  | MsgTransferring pyval pyval pystr
  | MsgTransferOk pyval pyval cms_json
  | MsgTransferFailed pyval cms_json
  | MsgTransferError exn

text \<open>
  Everything the program does to the outside, in order: HTTP requests, posted replies
  (channel, user, message) and calls of the host's fallback search with a title.
\<close>

datatype event =
  CmsPost cms_request
  | ApiGet get_request
  | PostMessage pystr pystr message
  | FallbackSearch pyval pystr pystr

text \<open>
  The outside world answers each request and each reading of the clock. The answer to a
  request may depend on the request and on how many events came before it; the clock on
  how many times it was read before. A clock reading is a real number of seconds: the
  rounding of Python's floating-point arithmetic on \<open>time.time()\<close> is not modelled.
\<close>

record world =
  clock :: "nat \<Rightarrow> real"
  cms_post :: "nat \<Rightarrow> cms_request \<Rightarrow> cms_json http_result"
  search_get :: "nat \<Rightarrow> get_request \<Rightarrow> pydict list http_result"
  resource_get :: "nat \<Rightarrow> get_request \<Rightarrow> resources http_result"

record rt =
  trace :: "event list"
  ticks :: nat

definition emit :: "event \<Rightarrow> rt \<Rightarrow> rt" where
  "emit e s = s\<lparr>trace := trace s @ [e]\<rparr>"

text \<open>\<open>time.time()\<close>: the reading, and the state after it.\<close>

definition time_time :: "world \<Rightarrow> rt \<Rightarrow> real \<times> rt" where
  "time_time w s = (clock w (ticks s), s\<lparr>ticks := Suc (ticks s)\<rparr>)"

section \<open>CloudSyncMediaClient\<close>

record cloud_sync_media_client =
  username :: pystr
  password :: pystr
  token :: pyval
  token_expiry :: real
  auth_header :: "pyval option"

text \<open>
  \<open>_login\<close>: post the credentials; an HTTP error status, a body that is not JSON, a
  \<open>code\<close> other than 200 or a missing \<open>data\<close> raise; otherwise \<open>data\<close> is returned.
\<close>

definition login :: "world \<Rightarrow> cloud_sync_media_client \<Rightarrow> rt \<Rightarrow> (exn + pydict) \<times> rt" where
  "login w c s =
    (let req = LoginReq (username c) (password c) (auth_header c) (ConnectRead 10 30);
         s' = emit (CmsPost req) s
     in case cms_post w (length (trace s)) req of
          Raises f \<Rightarrow> (Inl (NetFault f), s')
        | Response st body \<Rightarrow>
            if raise_for_status st then (Inl (HTTPError st), s')
            else (case body of
                    None \<Rightarrow> (Inl JSONDecodeError, s')
                  | Some d \<Rightarrow>
                      (case js_data d of
                         None \<Rightarrow> (Inl ValueError, s')
                       | Some login_data \<Rightarrow>
                           if js_code d \<noteq> PInt 200 then (Inl ValueError, s')
                           else (Inr login_data, s'))))"

text \<open>
  The staleness test of \<open>_ensure_valid_token\<close>:
  \<open>not self.token or current_time >= (self.token_expiry - 3600)\<close>.
\<close>

definition stale :: "cloud_sync_media_client \<Rightarrow> real \<Rightarrow> bool" where
  "stale c current_time \<longleftrightarrow> \<not> truthy (token c) \<or> current_time \<ge> token_expiry c - 3600"

text \<open>
  \<open>_ensure_valid_token\<close>: read the clock; when the token is stale, log in, store the
  new token with an expiry 86400 seconds after the reading and update the session's
  \<open>Authorization\<close> header. An exception of the login leaves the client as it was.
\<close>

definition ensure_valid_token ::
  "world \<Rightarrow> cloud_sync_media_client \<Rightarrow> rt \<Rightarrow> (exn + unit) \<times> cloud_sync_media_client \<times> rt" where
  "ensure_valid_token w c s =
    (case time_time w s of (current_time, s1) \<Rightarrow>
       if stale c current_time then
         (case login w c s1 of
            (Inl e, s2) \<Rightarrow> (Inl e, c, s2)
          | (Inr login_data, s2) \<Rightarrow>
              (case map_of login_data (py ''token'') of
                 None \<Rightarrow> (Inl KeyError, c, s2)
               | Some t \<Rightarrow>
                   (Inr (),
                    c\<lparr>token := t, token_expiry := current_time + 86400,
                      auth_header := Some t\<rparr>,
                    s2)))
       else (Inr (), c, s1))"

text \<open>
  The block that \<open>add_share_down\<close> runs at lines 82--88 and again at lines 100--106 of
  \<open>cms_client.py\<close>: post the URL, \<open>raise_for_status\<close>, parse the JSON.
\<close>

definition post_share_down ::
  "world \<Rightarrow> cloud_sync_media_client \<Rightarrow> pyval \<Rightarrow> rt \<Rightarrow> (exn + cms_json) \<times> rt" where
  "post_share_down w c u s =
    (let req = ShareDownReq u (auth_header c) (ConnectRead 10 30);
         s' = emit (CmsPost req) s
     in case cms_post w (length (trace s)) req of
          Raises f \<Rightarrow> (Inl (NetFault f), s')
        | Response st body \<Rightarrow>
            if raise_for_status st then (Inl (HTTPError st), s')
            else (case body of
                    None \<Rightarrow> (Inl JSONDecodeError, s')
                  | Some d \<Rightarrow> (Inr d, s')))"

text \<open>The \<open>try\<close> body of \<open>add_share_down\<close>: ensure the token, then post.\<close>

definition ensure_then_post ::
  "world \<Rightarrow> cloud_sync_media_client \<Rightarrow> pyval \<Rightarrow> rt \<Rightarrow> (exn + cms_json) \<times> cloud_sync_media_client \<times> rt" where
  "ensure_then_post w c u s =
    (case ensure_valid_token w c s of
       (Inl e, c1, s1) \<Rightarrow> (Inl e, c1, s1)
     | (Inr _, c1, s1) \<Rightarrow> (case post_share_down w c1 u s1 of (r, s2) \<Rightarrow> (r, c1, s2)))"

text \<open>
  \<open>add_share_down\<close>: a false URL (\<open>not url\<close>: empty or \<open>None\<close>) raises \<open>ValueError\<close> before the \<open>try\<close>. An
  \<open>HTTPError\<close> with status 401 raised inside the \<open>try\<close> (by the post or by the login)
  is handled by clearing the token, ensuring it again and posting again; what that
  handler raises is not caught again. Every other exception propagates.
\<close>

definition add_share_down ::
  "world \<Rightarrow> cloud_sync_media_client \<Rightarrow> pyval \<Rightarrow> rt \<Rightarrow> (exn + cms_json) \<times> cloud_sync_media_client \<times> rt" where
  "add_share_down w c u s =
    (if \<not> truthy u then (Inl ValueError, c, s)
     else
       (case ensure_then_post w c u s of
          (Inl (HTTPError st), c2, s2) \<Rightarrow>
            if st = 401 then ensure_then_post w (c2\<lparr>token := PNone\<rparr>) u s2
            else (Inl (HTTPError st), c2, s2)
        | (r, c2, s2) \<Rightarrow> (r, c2, s2)))"

section \<open>NullbrApiClient\<close>

record nullbr_api_client =
  app_id :: pystr
  client_api_key :: "pystr option"

text \<open>Truth value of an optional string: \<open>None\<close> and the empty string are false.\<close>

definition has_key :: "pystr option \<Rightarrow> bool" where
  "has_key k = (case k of None \<Rightarrow> False | Some x \<Rightarrow> x \<noteq> [])"

text \<open>
  \<open>_make_request\<close>: with \<open>use_proxy\<close> the client's own session and a timeout of 5
  seconds; without it a temporary session whose proxies are disabled and a timeout of
  (10, 30). One call of \<open>session.get\<close> is one event, whatever the session's retry
  adapter does inside it. \<open>send\<close> is the world's answer for the endpoint family.
\<close>

definition make_request ::
  "(nat \<Rightarrow> get_request \<Rightarrow> 'b http_result) \<Rightarrow> endpoint \<Rightarrow> pystr \<Rightarrow> pystr option \<Rightarrow> bool \<Rightarrow> rt
     \<Rightarrow> 'b http_result \<times> rt" where
  "make_request send ep app key use_proxy s =
    (let tmo = (if use_proxy then Single 5 else ConnectRead 10 30);
         req = \<lparr>rq_endpoint = ep, rq_app_id = app, rq_api_key = key,
                rq_use_proxy = use_proxy, rq_timeout = tmo\<rparr>
     in (send (length (trace s)) req, emit (ApiGet req) s))"

text \<open>
  The exceptions named by the inner \<open>except\<close> clause:
  \<open>(Timeout, ConnectTimeout, ReadTimeout, ConnectionError)\<close>.
\<close>

definition proxy_failure :: "net_fault \<Rightarrow> bool" where
  "proxy_failure f \<longleftrightarrow>
     f = Timeout \<or> f = ConnectTimeout \<or> f = ReadTimeout \<or> f = ConnectionError"

text \<open>
  The nested \<open>try\<close> that \<open>search\<close>, \<open>get_movie_resources\<close> and \<open>get_tv_resources\<close>
  each contain (lines 198--212, 238--252 and 284--298 of \<open>nullbrsearch/__init__.py\<close>;
  lines 72--86, 127--141 and 171--185 of \<open>nullbr_client.py\<close>): the request with the
  proxy; on one of the four exceptions above, the request without it. \<open>Inl\<close> is a
  call that ends without a response: the direct attempt raised (the method returns
  \<open>None\<close> there, or re-raises into its outer \<open>except Exception\<close>), or the proxied
  attempt raised something else (caught by the outer \<open>except Exception\<close>).
\<close>

definition request_with_fallback ::
  "(nat \<Rightarrow> get_request \<Rightarrow> 'b http_result) \<Rightarrow> endpoint \<Rightarrow> pystr \<Rightarrow> pystr option \<Rightarrow> rt
     \<Rightarrow> (net_fault + nat \<times> 'b option) \<times> rt" where
  "request_with_fallback send ep app key s =
    (case make_request send ep app key True s of
       (Response st body, s1) \<Rightarrow> (Inr (st, body), s1)
     | (Raises e, s1) \<Rightarrow>
         if proxy_failure e then
           (case make_request send ep app key False s1 of
              (Response st body, s2) \<Rightarrow> (Inr (st, body), s2)
            | (Raises direct_e, s2) \<Rightarrow> (Inl direct_e, s2))
         else (Inl e, s1))"

text \<open>
  \<open>search\<close> of \<open>nullbrsearch/__init__.py\<close>. The \<open>X-API-KEY\<close> header is sent only when
  the key is set. Status 200 returns the parsed JSON (a body that is not JSON raises
  into \<open>except Exception\<close>, which returns \<open>None\<close>); every other status returns \<open>None\<close>.
\<close>

definition search ::
  "world \<Rightarrow> nullbr_api_client \<Rightarrow> pystr \<Rightarrow> int \<Rightarrow> rt \<Rightarrow> pydict list option \<times> rt" where
  "search w cl query page s =
    (let key = (if has_key (client_api_key cl) then client_api_key cl else None)
     in case request_with_fallback (search_get w) (SearchEP query page) (app_id cl) key s of
          (Inl _, s') \<Rightarrow> (None, s')
        | (Inr (st, body), s') \<Rightarrow>
            if st = 200 then (body, s')
            else if st = 403 then (None, s')
            else (None, s'))"

text \<open>
  The part that \<open>get_movie_resources\<close> and \<open>get_tv_resources\<close> of
  \<open>nullbrsearch/__init__.py\<close> share word for word (lines 229--271 and 275--317), the
  URL apart: no request without an API key; status 200 returns the parsed JSON; 401,
  403, 429 and every other status return \<open>None\<close>.
\<close>

definition get_resources ::
  "world \<Rightarrow> nullbr_api_client \<Rightarrow> endpoint \<Rightarrow> rt \<Rightarrow> resources option \<times> rt" where
  "get_resources w cl ep s =
    (if \<not> has_key (client_api_key cl) then (None, s)
     else
       (case request_with_fallback (resource_get w) ep (app_id cl) (client_api_key cl) s of
          (Inl _, s') \<Rightarrow> (None, s')
        | (Inr (st, body), s') \<Rightarrow>
            if st = 200 then (body, s')
            else if st = 401 then (None, s')
            else if st = 403 then (None, s')
            else if st = 429 then (None, s')
            else (None, s')))"

definition get_movie_resources ::
  "world \<Rightarrow> nullbr_api_client \<Rightarrow> pyval \<Rightarrow> pystr \<Rightarrow> rt \<Rightarrow> resources option \<times> rt" where
  "get_movie_resources w cl tmdbid resource_type s =
     get_resources w cl (MovieEP tmdbid resource_type) s"

definition get_tv_resources ::
  "world \<Rightarrow> nullbr_api_client \<Rightarrow> pyval \<Rightarrow> pystr \<Rightarrow> rt \<Rightarrow> resources option \<times> rt" where
  "get_tv_resources w cl tmdbid resource_type s =
     get_resources w cl (TvEP tmdbid resource_type) s"

text \<open>
  The same two methods in \<open>nullbr_search/nullbr_client.py\<close> (lines 116--158 and
  160--202): there \<open>raise_for_status\<close> turns a 4xx or 5xx status into an \<open>HTTPError\<close>,
  whose handler logs one line for 404 and another for the rest and returns \<open>None\<close> in
  both; every other status returns the parsed JSON.
\<close>

definition nc_get_resources ::
  "world \<Rightarrow> nullbr_api_client \<Rightarrow> endpoint \<Rightarrow> rt \<Rightarrow> resources option \<times> rt" where
  "nc_get_resources w cl ep s =
    (if \<not> has_key (client_api_key cl) then (None, s)
     else
       (case request_with_fallback (resource_get w) ep (app_id cl) (client_api_key cl) s of
          (Inl _, s') \<Rightarrow> (None, s')
        | (Inr (st, body), s') \<Rightarrow>
            if raise_for_status st then
              (if st = 404 then (None, s') else (None, s'))
            else (body, s')))"

definition nc_get_movie_resources ::
  "world \<Rightarrow> nullbr_api_client \<Rightarrow> pyval \<Rightarrow> pystr \<Rightarrow> rt \<Rightarrow> resources option \<times> rt" where
  "nc_get_movie_resources w cl tmdbid resource_type s =
     nc_get_resources w cl (MovieEP tmdbid resource_type) s"

definition nc_get_tv_resources ::
  "world \<Rightarrow> nullbr_api_client \<Rightarrow> pyval \<Rightarrow> pystr \<Rightarrow> rt \<Rightarrow> resources option \<times> rt" where
  "nc_get_tv_resources w cl tmdbid resource_type s =
     nc_get_resources w cl (TvEP tmdbid resource_type) s"

section \<open>The plugin NullbrSearch\<close>

text \<open>
  The two per-user caches: \<open>_user_search_cache\<close> maps a user to the hits of the last
  search, \<open>_user_resource_cache\<close> to the resources of the last lookup, each with the
  clock reading at which it was written.
\<close>

record search_entry =
  sc_results :: "pydict list"
  sc_keyword :: pystr
  sc_timestamp :: real

record resource_item =
  item_url :: pyval
  item_title :: pyval
  item_size :: pyval
  item_type :: pystr

record resource_entry =
  rc_resources :: "resource_item list"
  rc_title :: pyval
  rc_resource_type :: pystr
  rc_timestamp :: real

record plugin =
  enabled :: bool
  client :: "nullbr_api_client option"
  api_key :: "pystr option"
  resource_priority :: "pystr list"
  enable_115 :: bool
  enable_magnet :: bool
  enable_video :: bool
  enable_ed2k :: bool
  cms_enabled :: bool
  cms_client :: "cloud_sync_media_client option"
  user_search_cache :: "pystr \<rightharpoonup> search_entry"
  user_resource_cache :: "pystr \<rightharpoonup> resource_entry"

text \<open>The event data of a user message: \<open>text\<close>, \<open>userid\<close>, \<open>channel\<close>, \<open>source\<close>.\<close>

record user_message =
  um_text :: "pystr option"
  um_userid :: pystr
  um_channel :: pystr
  um_source :: "pystr option"

text \<open>
  The default texts of the source that are not ASCII, as code points: the title
  U+672A U+77E5 U+6807 U+9898 and the value U+672A U+77E5.
\<close>

definition unknown_title :: pystr where
  "unknown_title = [26410, 30693, 26631, 39064]"

definition unknown_value :: pystr where
  "unknown_value = [26410, 30693]"

text \<open>\<open>self.post_message(channel=..., title=..., text=..., userid=...)\<close>.\<close>

definition post_message :: "pystr \<Rightarrow> pystr \<Rightarrow> message \<Rightarrow> rt \<Rightarrow> rt" where
  "post_message channel userid m s = emit (PostMessage channel userid m) s"

text \<open>
  \<open>fallback_to_moviepilot_search\<close> hands the title to \<open>try_alternative_search\<close>, which
  asks the host's \<open>SitesHelper\<close> and posts one suggestion; the call is one event.
\<close>

definition fallback_to_moviepilot_search :: "pyval \<Rightarrow> pystr \<Rightarrow> pystr \<Rightarrow> rt \<Rightarrow> rt" where
  "fallback_to_moviepilot_search title channel userid s =
     emit (FallbackSearch title channel userid) s"

subsection \<open>Formatting and caching the resources\<close>

text \<open>The URL field read for a resource type (lines 1435--1442).\<close>

definition resource_url :: "pystr \<Rightarrow> pydict \<Rightarrow> pyval" where
  "resource_url resource_type res =
    (if resource_type = py ''115'' then get_default res (py ''share_link'') (PStr [])
     else if resource_type = py ''magnet'' then get_default res (py ''magnet'') (PStr [])
     else if resource_type = py ''video'' \<or> resource_type = py ''ed2k'' then
       get_default res (py ''url'') (get_default res (py ''link'') (PStr []))
     else PStr [])"

text \<open>The loop of lines 1434--1450 over \<open>resource_list[:10]\<close>, appending to \<open>resource_cache\<close>.\<close>

fun cache_loop :: "pystr \<Rightarrow> pydict list \<Rightarrow> resource_item list \<Rightarrow> resource_item list" where
  "cache_loop resource_type [] resource_cache = resource_cache"
| "cache_loop resource_type (res # rest) resource_cache =
    (let url = resource_url resource_type res
     in if truthy url then
          cache_loop resource_type rest
            (resource_cache @
              [\<lparr>item_url = url,
                item_title = get_default res (py ''title'')
                               (get_default res (py ''name'') (PStr unknown_value)),
                item_size = get_default res (py ''size'') (PStr unknown_value),
                item_type = resource_type\<rparr>])
        else cache_loop resource_type rest resource_cache)"

text \<open>\<open>resources.get(resource_type, [])\<close>.\<close>

definition resource_list_of :: "resources \<Rightarrow> pystr \<Rightarrow> pydict list" where
  "resource_list_of rs resource_type =
     (case map_of rs resource_type of None \<Rightarrow> [] | Some l \<Rightarrow> l)"

text \<open>
  \<open>_format_and_send_resources\<close>: nothing is cached for an empty list; otherwise the
  cache entry of the user is overwritten and the formatted list is posted. The reply
  text is represented by the values it is built from: the title, the type, the first
  ten records, the length of the list and whether the transfer hint is added.
\<close>

definition format_and_send_resources ::
  "world \<Rightarrow> plugin \<Rightarrow> resources \<Rightarrow> pystr \<Rightarrow> pyval \<Rightarrow> pystr \<Rightarrow> pystr \<Rightarrow> rt \<Rightarrow> plugin \<times> rt" where
  "format_and_send_resources w p rs resource_type title channel userid s =
    (let resource_list = resource_list_of rs resource_type
     in if resource_list = [] then
          (p, post_message channel userid (MsgNoResources title resource_type) s)
        else
          (let resource_cache = cache_loop resource_type (take 10 resource_list) []
           in case time_time w s of (now, s1) \<Rightarrow>
                (p\<lparr>user_resource_cache := (user_resource_cache p)(userid \<mapsto>
                      \<lparr>rc_resources = resource_cache, rc_title = title,
                        rc_resource_type = resource_type, rc_timestamp = now\<rparr>)\<rparr>,
                 post_message channel userid
                   (MsgResources title resource_type (take 10 resource_list)
                      (length resource_list) (cms_enabled p \<and> cms_client p \<noteq> None))
                   s1)))"

subsection \<open>Resource lookup by priority\<close>

text \<open>\<open>getattr(self, f"_enable_{priority_type}", True)\<close>.\<close>

definition type_enabled :: "plugin \<Rightarrow> pystr \<Rightarrow> bool" where
  "type_enabled p priority_type =
    (if priority_type = py ''115'' then enable_115 p
     else if priority_type = py ''magnet'' then enable_magnet p
     else if priority_type = py ''video'' then enable_video p
     else if priority_type = py ''ed2k'' then enable_ed2k p
     else True)"

text \<open>
  The lookup of lines 1546--1550 and 1387--1391: \<open>get_movie_resources\<close> for a movie,
  \<open>get_tv_resources\<close> for a series, \<open>None\<close> without any call otherwise. A plugin
  without a client raises \<open>AttributeError\<close> at the call.
\<close>

definition fetch_resources ::
  "world \<Rightarrow> plugin \<Rightarrow> pyval \<Rightarrow> pyval \<Rightarrow> pystr \<Rightarrow> rt \<Rightarrow> (exn + resources option) \<times> rt" where
  "fetch_resources w p media_type tmdbid resource_type s =
    (if media_type = PStr (py ''movie'') then
       (case client p of
          None \<Rightarrow> (Inl AttributeError, s)
        | Some cl \<Rightarrow>
            (case get_movie_resources w cl tmdbid resource_type s of (r, s') \<Rightarrow> (Inr r, s')))
     else if media_type = PStr (py ''tv'') then
       (case client p of
          None \<Rightarrow> (Inl AttributeError, s)
        | Some cl \<Rightarrow>
            (case get_tv_resources w cl tmdbid resource_type s of (r, s') \<Rightarrow> (Inr r, s')))
     else (Inr None, s))"

text \<open>\<open>resources and resources.get(priority_type)\<close>: a non-empty list under the type.\<close>

definition found :: "resources option \<Rightarrow> pystr \<Rightarrow> bool" where
  "found r priority_type =
    (case r of
       None \<Rightarrow> False
     | Some rs \<Rightarrow> rs \<noteq> [] \<and> resource_list_of rs priority_type \<noteq> [])"

text \<open>
  The \<open>for priority_type in self._resource_priority\<close> loop of lines 1530--1574. It
  ends with the first type found and its resources, with \<open>None\<close> when the list is
  used up, or with the exception of a lookup.
\<close>

fun priority_loop ::
  "world \<Rightarrow> plugin \<Rightarrow> pydict \<Rightarrow> pyval \<Rightarrow> pyval \<Rightarrow> pystr list \<Rightarrow> rt
     \<Rightarrow> (exn + (pystr \<times> resources) option) \<times> rt" where
  "priority_loop w p selected media_type tmdbid [] s = (Inr None, s)"
| "priority_loop w p selected media_type tmdbid (priority_type # rest) s =
    (if \<not> truthy (getv selected (priority_type @ py ''-flg'')) then
       priority_loop w p selected media_type tmdbid rest s
     else if \<not> type_enabled p priority_type then
       priority_loop w p selected media_type tmdbid rest s
     else
       (case fetch_resources w p media_type tmdbid priority_type s of
          (Inl e, s1) \<Rightarrow> (Inl e, s1)
        | (Inr None, s1) \<Rightarrow> priority_loop w p selected media_type tmdbid rest s1
        | (Inr (Some rs), s1) \<Rightarrow>
            if found (Some rs) priority_type then (Inr (Some (priority_type, rs)), s1)
            else priority_loop w p selected media_type tmdbid rest s1))"

text \<open>
  \<open>get_resources_by_priority\<close>: a hit without a TMDB id is answered with an error
  text; otherwise the loop runs, a found type is announced and formatted, and an
  exhausted list is answered by the notice and the fallback search of the title.
\<close>

definition get_resources_by_priority ::
  "world \<Rightarrow> plugin \<Rightarrow> pydict \<Rightarrow> pystr \<Rightarrow> pystr \<Rightarrow> rt \<Rightarrow> plugin \<times> rt" where
  "get_resources_by_priority w p selected channel userid s =
    (let title = get_default selected (py ''title'') (PStr unknown_title);
         media_type = get_default selected (py ''media_type'') (PStr (py ''unknown''));
         tmdbid = getv selected (py ''tmdbid'')
     in if \<not> truthy tmdbid then
          (p, post_message channel userid MsgMissingTmdbId s)
        else
          (case priority_loop w p selected media_type tmdbid (resource_priority p) s of
             (Inl e, s1) \<Rightarrow> (p, post_message channel userid (MsgPriorityError e) s1)
           | (Inr (Some (priority_type, rs)), s1) \<Rightarrow>
               format_and_send_resources w p rs priority_type title channel userid
                 (post_message channel userid (MsgFetched title priority_type) s1)
           | (Inr None, s1) \<Rightarrow>
               (p, fallback_to_moviepilot_search title channel userid
                     (post_message channel userid (MsgSwitchSearchAll title) s1))))"

subsection \<open>Reading the caches\<close>

text \<open>
  The guard of lines 1246--1247 and 1343--1344:
  \<open>cache = self._user_search_cache.get(userid)\<close>, then
  \<open>not cache or time.time() - cache['timestamp'] > 3600\<close>. The clock is read only when
  the user has an entry.
\<close>

definition read_search_cache ::
  "world \<Rightarrow> plugin \<Rightarrow> pystr \<Rightarrow> rt \<Rightarrow> search_entry option \<times> rt" where
  "read_search_cache w p userid s =
    (case user_search_cache p userid of
       None \<Rightarrow> (None, s)
     | Some cache \<Rightarrow>
         (case time_time w s of (now, s1) \<Rightarrow>
            if now - sc_timestamp cache > 3600 then (None, s1) else (Some cache, s1)))"

text \<open>The same guard on \<open>_user_resource_cache\<close>, lines 1610--1611.\<close>

definition read_resource_cache ::
  "world \<Rightarrow> plugin \<Rightarrow> pystr \<Rightarrow> rt \<Rightarrow> resource_entry option \<times> rt" where
  "read_resource_cache w p userid s =
    (case user_resource_cache p userid of
       None \<Rightarrow> (None, s)
     | Some cache \<Rightarrow>
         (case time_time w s of (now, s1) \<Rightarrow>
            if now - rc_timestamp cache > 3600 then (None, s1) else (Some cache, s1)))"

text \<open>
  The test of \<open>talk\<close>, lines 1139--1141: \<open>userid in self._user_resource_cache\<close>, then
  \<open>time.time() - cache['timestamp'] < 3600\<close>.
\<close>

definition live_resource_cache ::
  "world \<Rightarrow> plugin \<Rightarrow> pystr \<Rightarrow> rt \<Rightarrow> resource_entry option \<times> rt" where
  "live_resource_cache w p userid s =
    (case user_resource_cache p userid of
       None \<Rightarrow> (None, s)
     | Some cache \<Rightarrow>
         (case time_time w s of (now, s1) \<Rightarrow>
            if now - rc_timestamp cache < 3600 then (Some cache, s1) else (None, s1)))"

subsection \<open>The handlers\<close>

text \<open>
  \<open>x[:n]\<close> for a scalar \<open>x\<close>: a string is cut, anything else raises \<open>TypeError\<close>.
\<close>

definition slice_upto :: "nat \<Rightarrow> pyval \<Rightarrow> exn + pystr" where
  "slice_upto n v = (case v of PStr t \<Rightarrow> Inr (take n t) | _ \<Rightarrow> Inl TypeError)"

text \<open>
  The year of a hit, lines 1194 and 1270:
  \<open>item.get('release_date', item.get('first_air_date', ''))[:4]
  if item.get('release_date') or item.get('first_air_date') else ''\<close>.
\<close>

definition year_of :: "pydict \<Rightarrow> exn + pystr" where
  "year_of item =
    (if truthy (getv item (py ''release_date'')) \<or> truthy (getv item (py ''first_air_date''))
     then slice_upto 4
            (get_default item (py ''release_date'')
               (get_default item (py ''first_air_date'') (PStr [])))
     else Inr [])"

text \<open>
  The loop of lines 1191--1214 that formats the hits: of what it computes, only the
  year of a hit can raise.
\<close>

fun format_hits :: "pydict list \<Rightarrow> exn + unit" where
  "format_hits [] = Inr ()"
| "format_hits (item # rest) =
    (case year_of item of Inl e \<Rightarrow> Inl e | Inr year \<Rightarrow> format_hits rest)"

text \<open>
  \<open>search_and_reply\<close>: no result falls back to the host's search of the keyword; a
  result caches its first ten hits for the user and posts the list. An exception
  raised while the list is formatted, after the cache was written, is answered with
  the error text.
\<close>

definition search_and_reply ::
  "world \<Rightarrow> plugin \<Rightarrow> pystr \<Rightarrow> pystr \<Rightarrow> pystr \<Rightarrow> rt \<Rightarrow> plugin \<times> rt" where
  "search_and_reply w p keyword channel userid s =
    (case client p of
       None \<Rightarrow> (p, post_message channel userid (MsgSearchError keyword AttributeError) s)
     | Some cl \<Rightarrow>
         (case search w cl keyword 1 s of (result, s1) \<Rightarrow>
            if result = None \<or> result = Some [] then
              (p, fallback_to_moviepilot_search (PStr keyword) channel userid
                    (post_message channel userid (MsgSwitchSearch keyword) s1))
            else
              (let all_items = (case result of None \<Rightarrow> [] | Some l \<Rightarrow> l);
                   items = take 10 all_items
               in case time_time w s1 of (now, s2) \<Rightarrow>
                    (p\<lparr>user_search_cache := (user_search_cache p)(userid \<mapsto>
                          \<lparr>sc_results = items, sc_keyword = keyword, sc_timestamp = now\<rparr>)\<rparr>,
                     (case format_hits items of
                        Inl e \<Rightarrow> post_message channel userid (MsgSearchError keyword e) s2
                      | Inr _ \<Rightarrow>
                          post_message channel userid
                            (MsgSearchResults keyword items (length all_items)) s2)))))"

text \<open>
  The only step of the details text (lines 1275--1301) that can raise:
  \<open>selected.get('overview')[:100]\<close>, taken when the overview is true.
\<close>

definition overview_of :: "pydict \<Rightarrow> exn + pystr" where
  "overview_of selected =
    (if truthy (getv selected (py ''overview''))
     then slice_upto 100 (getv selected (py ''overview''))
     else Inr [])"

text \<open>
  \<open>handle_resource_selection\<close>: the number picks a hit of the cached search; without
  an API key its details are posted, with one the resources are looked up by priority.
  The year of the hit is computed before either, and an exception of it or of the
  details text is answered with the error text.
\<close>

definition handle_resource_selection ::
  "world \<Rightarrow> plugin \<Rightarrow> int \<Rightarrow> pystr \<Rightarrow> pystr \<Rightarrow> rt \<Rightarrow> plugin \<times> rt" where
  "handle_resource_selection w p number channel userid s =
    (case read_search_cache w p userid s of
       (None, s1) \<Rightarrow> (p, post_message channel userid MsgSearchExpired s1)
     | (Some cache, s1) \<Rightarrow>
         (let results = sc_results cache
          in if number < 1 \<or> number > int (length results) then
               (p, post_message channel userid (MsgInvalidNumber (length results)) s1)
             else
               (let selected = results ! nat (number - 1);
                    title = get_default selected (py ''title'') (PStr unknown_title)
                in case year_of selected of
                     Inl e \<Rightarrow> (p, post_message channel userid (MsgSelectionError e) s1)
                   | Inr year \<Rightarrow>
                       if \<not> has_key (api_key p) then
                         (case overview_of selected of
                            Inl e \<Rightarrow>
                              (p, post_message channel userid (MsgSelectionError e) s1)
                          | Inr overview \<Rightarrow>
                              (p, post_message channel userid (MsgDetails selected) s1))
                       else
                         get_resources_by_priority w p selected channel userid
                           (post_message channel userid (MsgFetchingByPriority title) s1))))"

text \<open>
  \<open>handle_get_resources\<close>: the resources of one given type for the hit with the given
  number.
\<close>

definition handle_get_resources ::
  "world \<Rightarrow> plugin \<Rightarrow> int \<Rightarrow> pystr \<Rightarrow> pystr \<Rightarrow> pystr \<Rightarrow> rt \<Rightarrow> plugin \<times> rt" where
  "handle_get_resources w p number resource_type channel userid s =
    (if \<not> has_key (api_key p) then (p, post_message channel userid MsgNeedApiKey s)
     else
       (case read_search_cache w p userid s of
          (None, s1) \<Rightarrow> (p, post_message channel userid MsgSearchExpired s1)
        | (Some cache, s1) \<Rightarrow>
            (let results = sc_results cache
             in if number < 1 \<or> number > int (length results) then
                  (p, post_message channel userid (MsgInvalidNumber (length results)) s1)
                else
                  (let selected = results ! nat (number - 1);
                       title = get_default selected (py ''title'') (PStr unknown_title);
                       media_type = get_default selected (py ''media_type'') (PStr (py ''unknown''));
                       tmdbid = getv selected (py ''tmdbid'')
                   in if \<not> truthy tmdbid then
                        (p, post_message channel userid MsgMissingTmdbId s1)
                      else
                        (case fetch_resources w p media_type tmdbid resource_type
                                (post_message channel userid (MsgFetching title resource_type) s1) of
                           (Inl e, s3) \<Rightarrow>
                             (p, post_message channel userid (MsgGetResourcesError e) s3)
                         | (Inr None, s3) \<Rightarrow>
                             (p, fallback_to_moviepilot_search title channel userid
                                   (post_message channel userid
                                      (MsgSwitchSearchType title resource_type) s3))
                         | (Inr (Some rs), s3) \<Rightarrow>
                             if rs = [] then
                               (p, fallback_to_moviepilot_search title channel userid
                                     (post_message channel userid
                                        (MsgSwitchSearchType title resource_type) s3))
                             else
                               format_and_send_resources w p rs resource_type title
                                 channel userid s3)))))"

text \<open>
  \<open>handle_resource_transfer\<close>: the number picks a cached resource, whose URL is
  enqueued in the transfer system; an exception of the client becomes an error text.
\<close>

definition handle_resource_transfer ::
  "world \<Rightarrow> plugin \<Rightarrow> int \<Rightarrow> pystr \<Rightarrow> pystr \<Rightarrow> rt \<Rightarrow> plugin \<times> rt" where
  "handle_resource_transfer w p resource_id channel userid s =
    (case (if cms_enabled p then cms_client p else None) of
       None \<Rightarrow> (p, post_message channel userid MsgCmsDisabled s)
     | Some c \<Rightarrow>
         (case read_resource_cache w p userid s of
            (None, s1) \<Rightarrow> (p, post_message channel userid MsgResourceExpired s1)
          | (Some cache, s1) \<Rightarrow>
              (let rsrc = rc_resources cache
               in if resource_id < 1 \<or> resource_id > int (length rsrc) then
                    (p, post_message channel userid (MsgInvalidResourceNumber (length rsrc)) s1)
                  else
                    (let selected_resource = rsrc ! nat (resource_id - 1);
                         title = item_title selected_resource;
                         url = item_url selected_resource;
                         size = item_size selected_resource;
                         resource_type = item_type selected_resource
                     in case add_share_down w c url
                               (post_message channel userid
                                  (MsgTransferring title size resource_type) s1) of
                          (Inl e, c', s3) \<Rightarrow>
                            (p\<lparr>cms_client := Some c'\<rparr>,
                             post_message channel userid (MsgTransferError e) s3)
                        | (Inr result, c', s3) \<Rightarrow>
                            if js_code result = PInt 200 then
                              (p\<lparr>cms_client := Some c'\<rparr>,
                               post_message channel userid (MsgTransferOk title size result) s3)
                            else
                              (p\<lparr>cms_client := Some c'\<rparr>,
                               post_message channel userid (MsgTransferFailed title result) s3)))))"

subsection \<open>The dispatcher\<close>

text \<open>
  The characters \<open>str.strip()\<close> removes: the code points for which \<open>str.isspace\<close>
  holds.
\<close>

definition is_space :: "nat \<Rightarrow> bool" where
  "is_space c \<longleftrightarrow>
     (9 \<le> c \<and> c \<le> 13) \<or> (28 \<le> c \<and> c \<le> 32) \<or> c = 133 \<or> c = 160 \<or> c = 5760
     \<or> (8192 \<le> c \<and> c \<le> 8202) \<or> c = 8232 \<or> c = 8233 \<or> c = 8239 \<or> c = 8287 \<or> c = 12288"

definition strip :: "pystr \<Rightarrow> pystr" where
  "strip t = dropWhile is_space (rev (dropWhile is_space (rev t)))"

text \<open>The two question marks: U+FF1F (full width) and U+003F.\<close>

definition is_question_mark :: "nat \<Rightarrow> bool" where
  "is_question_mark c \<longleftrightarrow> c = 65311 \<or> c = 63"

text \<open>\<open>text.rstrip('\<dots>?')\<close> with the two question marks as the characters to remove.\<close>

definition rstrip_question_marks :: "pystr \<Rightarrow> pystr" where
  "rstrip_question_marks t = rev (dropWhile is_question_mark (rev t))"

text \<open>\<open>text.endswith(\<dots>) or text.endswith('?')\<close>, for the same two characters.\<close>

definition ends_with_question_mark :: "pystr \<Rightarrow> bool" where
  "ends_with_question_mark t \<longleftrightarrow> t \<noteq> [] \<and> is_question_mark (last t)"

text \<open>
  What \<open>talk\<close> takes from the interpreter. Among the ASCII characters the digits are
  \<open>0\<close> to \<open>9\<close>, in every version of Python. Beyond ASCII the interpreter's Unicode
  tables decide, and they grow from version to version:
  \<^item> \<open>nonascii_decimal c\<close> is the value of \<open>c\<close> when \<open>c\<close> is a decimal digit (category
    Nd, such as the full-width digits U+FF10 to U+FF19): \<open>str.isdecimal\<close> holds, the
    pattern \<open>\d\<close> of \<open>re\<close> matches, and \<open>int\<close> reads the value;
  \<^item> \<open>nonascii_digit c\<close> holds when \<open>c\<close> is a digit that is not decimal (such as the
    superscript two U+00B2): \<open>str.isdigit\<close> holds, but \<open>int\<close> rejects the character.
  \<open>int_max_str_digits\<close> is \<open>sys.get_int_max_str_digits()\<close>: 4300 by default since
  Python 3.11, 0 when there is no limit.
\<close>

record interpreter =
  nonascii_decimal :: "nat \<Rightarrow> nat option"
  nonascii_digit :: "nat \<Rightarrow> bool"
  int_max_str_digits :: nat

definition decimal_value :: "interpreter \<Rightarrow> nat \<Rightarrow> nat option" where
  "decimal_value ip c =
    (if c < 128 then (if 48 \<le> c \<and> c \<le> 57 then Some (c - 48) else None)
     else nonascii_decimal ip c)"

definition is_decimal :: "interpreter \<Rightarrow> nat \<Rightarrow> bool" where
  "is_decimal ip c \<longleftrightarrow> decimal_value ip c \<noteq> None"

definition is_digit :: "interpreter \<Rightarrow> nat \<Rightarrow> bool" where
  "is_digit ip c \<longleftrightarrow> is_decimal ip c \<or> (128 \<le> c \<and> nonascii_digit ip c)"

text \<open>\<open>str.isdigit\<close>: a non-empty text all of whose characters are digits.\<close>

definition isdigit :: "interpreter \<Rightarrow> pystr \<Rightarrow> bool" where
  "isdigit ip t \<longleftrightarrow> t \<noteq> [] \<and> list_all (is_digit ip) t"

definition digit_of :: "interpreter \<Rightarrow> nat \<Rightarrow> int" where
  "digit_of ip c = (case decimal_value ip c of None \<Rightarrow> 0 | Some d \<Rightarrow> int d)"

text \<open>
  \<open>int(t)\<close> for a text \<open>t\<close> made of digits only, which are the texts that \<open>talk\<close>
  converts. It raises \<open>ValueError\<close> when a character is not a decimal digit, and
  when the text has more digits than the interpreter's limit (the limit applies to
  texts of more than 640 digits; leading zeros count); otherwise it is the number in
  base ten.
\<close>

definition int_of_digits :: "interpreter \<Rightarrow> pystr \<Rightarrow> exn + int" where
  "int_of_digits ip t =
    (if t = [] \<or> \<not> list_all (is_decimal ip) t then Inl ValueError
     else if 640 < length t \<and> 0 < int_max_str_digits ip \<and> int_max_str_digits ip < length t
       then Inl ValueError
     else Inr (foldl (\<lambda>a c. 10 * a + digit_of ip c) 0 t))"

text \<open>
  \<open>re.match(r'^\d+\.(115|magnet|video|ed2k)$', clean_text)\<close> followed by
  \<open>clean_text.split('.')\<close>: on a match, the decimal digits before the dot and the
  type after it. The dot is no digit, so the digits matched are all the leading ones.
\<close>

definition match_resource_request :: "interpreter \<Rightarrow> pystr \<Rightarrow> (pystr \<times> pystr) option" where
  "match_resource_request ip t =
    (let digits = takeWhile (is_decimal ip) t
     in case dropWhile (is_decimal ip) t of
          [] \<Rightarrow> None
        | c # resource_type \<Rightarrow>
            if digits \<noteq> [] \<and> c = 46
               \<and> (resource_type = py ''115'' \<or> resource_type = py ''magnet''
                  \<or> resource_type = py ''video'' \<or> resource_type = py ''ed2k'')
            then Some (digits, resource_type)
            else None)"

text \<open>
  The numeric branch of \<open>talk\<close>, lines 1136--1148: a transfer when the transfer client
  is enabled, the user has a resource entry younger than 3600 seconds and the number
  indexes it; the selection of a hit otherwise.
\<close>

definition numeric_selection ::
  "world \<Rightarrow> plugin \<Rightarrow> int \<Rightarrow> pystr \<Rightarrow> pystr \<Rightarrow> rt \<Rightarrow> plugin \<times> rt" where
  "numeric_selection w p number channel userid s =
    (if cms_enabled p \<and> cms_client p \<noteq> None then
       (case live_resource_cache w p userid s of
          (Some cache, s1) \<Rightarrow>
            if 1 \<le> number \<and> number \<le> int (length (rc_resources cache)) then
              handle_resource_transfer w p number channel userid s1
            else handle_resource_selection w p number channel userid s1
        | (None, s1) \<Rightarrow> handle_resource_selection w p number channel userid s1)
     else handle_resource_selection w p number channel userid s)"

text \<open>
  \<open>talk\<close>: the handler of a user message. It has no \<open>try\<close>: the \<open>ValueError\<close> of
  \<open>int\<close> leaves it as an exception, before any handler was called.
\<close>

definition talk ::
  "interpreter \<Rightarrow> world \<Rightarrow> plugin \<Rightarrow> user_message \<Rightarrow> rt \<Rightarrow> (exn + unit) \<times> plugin \<times> rt" where
  "talk ip w p ev s =
    (if \<not> enabled p \<or> client p = None then (Inr (), p, s)
     else
       (case um_text ev of
          None \<Rightarrow> (Inr (), p, s)
        | Some text \<Rightarrow>
            if text = [] then (Inr (), p, s)
            else if um_source ev = Some (py ''nullbr_fallback'') then (Inr (), p, s)
            else
              (let userid = um_userid ev;
                   channel = um_channel ev;
                   clean_text = strip (rstrip_question_marks text)
               in case match_resource_request ip clean_text of
                    Some (digits, resource_type) \<Rightarrow>
                      (case int_of_digits ip digits of
                         Inl e \<Rightarrow> (Inl e, p, s)
                       | Inr number \<Rightarrow>
                           (Inr (),
                            handle_get_resources w p number resource_type channel userid s))
                  | None \<Rightarrow>
                      if isdigit ip clean_text then
                        (case int_of_digits ip clean_text of
                           Inl e \<Rightarrow> (Inl e, p, s)
                         | Inr number \<Rightarrow>
                             (Inr (), numeric_selection w p number channel userid s))
                      else if ends_with_question_mark text then
                        (if clean_text \<noteq> [] then
                           (Inr (), search_and_reply w p clean_text channel userid s)
                         else (Inr (), p, s))
                      else (Inr (), p, s))))"

section \<open>Notions used to state the properties\<close>

text \<open>Counting the enqueue posts and the logins among the events.\<close>

fun is_share_post :: "event \<Rightarrow> bool" where
  "is_share_post (CmsPost (ShareDownReq _ _ _)) = True"
| "is_share_post _ = False"

definition share_posts :: "event list \<Rightarrow> nat" where
  "share_posts es = length (filter is_share_post es)"

text \<open>The two requests of a lookup: with the proxy, and without it.\<close>

definition proxied_request :: "endpoint \<Rightarrow> pystr \<Rightarrow> pystr option \<Rightarrow> get_request" where
  "proxied_request ep app key =
     \<lparr>rq_endpoint = ep, rq_app_id = app, rq_api_key = key,
      rq_use_proxy = True, rq_timeout = Single 5\<rparr>"

definition direct_request :: "endpoint \<Rightarrow> pystr \<Rightarrow> pystr option \<Rightarrow> get_request" where
  "direct_request ep app key =
     \<lparr>rq_endpoint = ep, rq_app_id = app, rq_api_key = key,
      rq_use_proxy = False, rq_timeout = ConnectRead 10 30\<rparr>"

text \<open>
  The invariant of the resource cache: every item of every user's entry has a true
  URL (for a string: a non-empty one), and no entry has more than ten items.
\<close>

definition resource_cache_ok :: "plugin \<Rightarrow> bool" where
  "resource_cache_ok p \<longleftrightarrow>
     (\<forall>userid e. user_resource_cache p userid = Some e \<longrightarrow>
        list_all (\<lambda>it. truthy (item_url it) \<and> item_url it \<noteq> PStr [] \<and> item_url it \<noteq> PNone)
          (rc_resources e)
        \<and> length (rc_resources e) \<le> 10)"

text \<open>
  The types that the priority loop looks up for a hit: those whose flag is set in the
  hit and which are enabled in the configuration.
\<close>

definition candidate :: "plugin \<Rightarrow> pydict \<Rightarrow> pystr \<Rightarrow> bool" where
  "candidate p selected priority_type \<longleftrightarrow>
     truthy (getv selected (priority_type @ py ''-flg'')) \<and> type_enabled p priority_type"

text \<open>
  The lookups of a list of types, one after the other from a given state: the result
  of each, and the state after the last.
\<close>

fun fetch_all ::
  "world \<Rightarrow> plugin \<Rightarrow> pyval \<Rightarrow> pyval \<Rightarrow> pystr list \<Rightarrow> rt
     \<Rightarrow> (exn + resources option) list \<times> rt" where
  "fetch_all w p media_type tmdbid [] s = ([], s)"
| "fetch_all w p media_type tmdbid (t # ts) s =
    (case fetch_resources w p media_type tmdbid t s of
       (r, s1) \<Rightarrow>
         (case fetch_all w p media_type tmdbid ts s1 of (rs, s2) \<Rightarrow> (r # rs, s2)))"

text \<open>A lookup that returned a non-empty list for the type.\<close>

definition found_result :: "exn + resources option \<Rightarrow> pystr \<Rightarrow> bool" where
  "found_result r priority_type = (case r of Inl _ \<Rightarrow> False | Inr x \<Rightarrow> found x priority_type)"

section \<open>Example inputs\<close>

definition rt0 :: rt where
  "rt0 = \<lparr>trace = [], ticks = 0\<rparr>"

text \<open>
  A transfer system that accepts every login with the token \<open>t1\<close> and answers every
  enqueue with status 401; the clock starts at 1000 and advances by one per reading.
\<close>

definition login_reply :: cms_json where
  "login_reply = \<lparr>js_code = PInt 200, js_data = Some [(py ''token'', PStr (py ''t1''))],
     js_msg = None\<rparr>"

definition rejecting_world :: world where
  "rejecting_world =
     \<lparr>clock = (\<lambda>n. 1000 + real n),
      cms_post = (\<lambda>n req. case req of
                    LoginReq _ _ _ _ \<Rightarrow> Response 200 (Some login_reply)
                  | ShareDownReq _ _ _ \<Rightarrow> Response 401 None),
      search_get = (\<lambda>n req. Raises Timeout),
      resource_get = (\<lambda>n req. Raises Timeout)\<rparr>"

definition fresh_client :: cloud_sync_media_client where
  "fresh_client = \<lparr>username = py ''u'', password = py ''p'', token = PNone,
     token_expiry = 0, auth_header = None\<rparr>"

definition logged_in_client :: cloud_sync_media_client where
  "logged_in_client = \<lparr>username = py ''u'', password = py ''p'', token = PStr (py ''t1''),
     token_expiry = 87400, auth_header = Some (PStr (py ''t1''))\<rparr>"

text \<open>
  An API client with a key, and three worlds for it: one whose proxy is unreachable
  while the direct path answers 200 with one \<open>115\<close> record; one in which both paths
  time out; and one that answers every resource lookup with a given status.
\<close>

definition demo_api_client :: nullbr_api_client where
  "demo_api_client = \<lparr>app_id = py ''app'', client_api_key = Some (py ''key'')\<rparr>"

definition share_record :: pydict where
  "share_record = [(py ''share_link'', PStr (py ''https://115.com/s/abc'')),
                   (py ''title'', PStr (py ''The Matrix''))]"

definition demo_resources :: resources where
  "demo_resources = [(py ''115'', [share_record])]"

definition proxy_down_world :: world where
  "proxy_down_world =
     \<lparr>clock = (\<lambda>n. 1000 + real n),
      cms_post = (\<lambda>n req. Raises Timeout),
      search_get = (\<lambda>n req. Raises Timeout),
      resource_get = (\<lambda>n req. if rq_use_proxy req then Raises ConnectTimeout
                                else Response 200 (Some demo_resources))\<rparr>"

definition unreachable_world :: world where
  "unreachable_world =
     \<lparr>clock = (\<lambda>n. 1000 + real n),
      cms_post = (\<lambda>n req. Raises Timeout),
      search_get = (\<lambda>n req. Raises Timeout),
      resource_get = (\<lambda>n req. Raises Timeout)\<rparr>"

definition status_world :: "nat \<Rightarrow> world" where
  "status_world st =
     \<lparr>clock = (\<lambda>n. 1000 + real n),
      cms_post = (\<lambda>n req. Raises Timeout),
      search_get = (\<lambda>n req. Raises Timeout),
      resource_get = (\<lambda>n req. Response st (Some demo_resources))\<rparr>"

text \<open>
  A plugin with an API key and without a transfer client, whose priority order is
  magnet, 115, ed2k, video; a movie hit with the flags 115, magnet and video set and
  ed2k cleared; the same hit without its TMDB id; the same hit as a person.
\<close>

definition demo_plugin :: plugin where
  "demo_plugin =
     \<lparr>enabled = True, client = Some demo_api_client, api_key = Some (py ''key''),
      resource_priority = [py ''magnet'', py ''115'', py ''ed2k'', py ''video''],
      enable_115 = True, enable_magnet = True, enable_video = True, enable_ed2k = True,
      cms_enabled = False, cms_client = None,
      user_search_cache = Map.empty, user_resource_cache = Map.empty\<rparr>"

definition matrix_hit :: pydict where
  "matrix_hit =
     [(py ''title'', PStr (py ''The Matrix'')), (py ''media_type'', PStr (py ''movie'')),
      (py ''tmdbid'', PInt 603), (py ''115-flg'', PBool True),
      (py ''magnet-flg'', PBool True), (py ''ed2k-flg'', PBool False),
      (py ''video-flg'', PBool True)]"

definition no_id_hit :: pydict where
  "no_id_hit =
     [(py ''title'', PStr (py ''The Matrix'')), (py ''media_type'', PStr (py ''movie'')),
      (py ''115-flg'', PBool True), (py ''magnet-flg'', PBool True),
      (py ''ed2k-flg'', PBool False), (py ''video-flg'', PBool True)]"

definition person_hit :: pydict where
  "person_hit =
     [(py ''title'', PStr (py ''The Matrix'')), (py ''media_type'', PStr (py ''person'')),
      (py ''tmdbid'', PInt 603), (py ''115-flg'', PBool True),
      (py ''magnet-flg'', PBool True), (py ''ed2k-flg'', PBool False),
      (py ''video-flg'', PBool True)]"

text \<open>The same plugin after the user \<open>u1\<close> searched at time 1000 and got two hits.\<close>

definition demo_search_entry :: search_entry where
  "demo_search_entry =
     \<lparr>sc_results = [matrix_hit, no_id_hit], sc_keyword = py ''Matrix'', sc_timestamp = 1000\<rparr>"

definition listed_plugin :: plugin where
  "listed_plugin = demo_plugin\<lparr>user_search_cache := [py ''u1'' \<mapsto> demo_search_entry]\<rparr>"

text \<open>
  Three records of a \<open>115\<close> lookup: one with a link, one with an empty link and one
  without the field.
\<close>

definition empty_link_record :: pydict where
  "empty_link_record = [(py ''share_link'', PStr []), (py ''title'', PStr (py ''B''))]"

definition no_link_record :: pydict where
  "no_link_record = [(py ''title'', PStr (py ''C''))]"

definition mixed_resources :: resources where
  "mixed_resources = [(py ''115'', [empty_link_record, share_record, no_link_record])]"

text \<open>
  A world whose clock always shows a given time, and a plugin with a transfer client
  in which the user \<open>u1\<close> holds a search entry and a resource entry, both written at
  time 1000.
\<close>

definition clock_world :: "real \<Rightarrow> world" where
  "clock_world t =
     \<lparr>clock = (\<lambda>n. t),
      cms_post = (\<lambda>n req. Raises Timeout),
      search_get = (\<lambda>n req. Raises Timeout),
      resource_get = (\<lambda>n req. Raises Timeout)\<rparr>"

definition demo_resource_entry :: resource_entry where
  "demo_resource_entry =
     \<lparr>rc_resources = [\<lparr>item_url = PStr (py ''https://115.com/s/abc''),
                         item_title = PStr (py ''The Matrix''),
                         item_size = PStr unknown_value, item_type = py ''115''\<rparr>],
      rc_title = PStr (py ''The Matrix''), rc_resource_type = py ''115'',
      rc_timestamp = 1000\<rparr>"

definition cached_plugin :: plugin where
  "cached_plugin =
     demo_plugin\<lparr>cms_enabled := True, cms_client := Some logged_in_client,
                  user_search_cache := [py ''u1'' \<mapsto> demo_search_entry],
                  user_resource_cache := [py ''u1'' \<mapsto> demo_resource_entry]\<rparr>"






text \<open>
  A catalogue that has \<open>115\<close> resources of a movie and answers 404 for every other
  type.
\<close>

definition catalog_world :: world where
  "catalog_world =
     \<lparr>clock = (\<lambda>n. 1000 + real n),
      cms_post = (\<lambda>n req. Raises Timeout),
      search_get = (\<lambda>n req. Raises Timeout),
      resource_get = (\<lambda>n req. case rq_endpoint req of
                         MovieEP _ t \<Rightarrow> if t = py ''115'' then Response 200 (Some demo_resources)
                                        else Response 404 None
                       | _ \<Rightarrow> Response 404 None)\<rparr>"

section \<open>Properties of CloudSyncMediaClient\<close>

lemma login_trace:
  "login w c s = (r, s') \<Longrightarrow>
     trace s' = trace s @ [CmsPost (LoginReq (username c) (password c) (auth_header c) (ConnectRead 10 30))]
     \<and> ticks s' = ticks s"
  by (auto simp: login_def Let_def emit_def split: http_result.splits if_splits option.splits)

lemma ensure_fresh:
  "\<not> stale c (clock w (ticks s)) \<Longrightarrow>
     ensure_valid_token w c s = (Inr (), c, s\<lparr>ticks := Suc (ticks s)\<rparr>)"
  by (simp add: ensure_valid_token_def time_time_def)

lemma ensure_stale:
  assumes "stale c (clock w (ticks s))" and "ensure_valid_token w c s = (r, c', s')"
  shows "trace s' = trace s @ [CmsPost (LoginReq (username c) (password c) (auth_header c) (ConnectRead 10 30))]"
    and "ticks s' = Suc (ticks s)"
    and "r = Inr () \<Longrightarrow>
           \<exists>t. c' = c\<lparr>token := t, token_expiry := clock w (ticks s) + 86400, auth_header := Some t\<rparr>"
    and "r \<noteq> Inr () \<Longrightarrow> c' = c"
  using assms
  by (auto simp: ensure_valid_token_def time_time_def
           split: prod.splits sum.splits option.splits dest!: login_trace)

lemma ensure_share_posts:
  "ensure_valid_token w c s = (r, c', s') \<Longrightarrow> share_posts (trace s') = share_posts (trace s)"
  by (cases "stale c (clock w (ticks s))")
     (auto simp: share_posts_def ensure_fresh dest: ensure_stale(1))

lemma post_share_down_trace:
  "post_share_down w c u s = (r, s') \<Longrightarrow>
     trace s' = trace s @ [CmsPost (ShareDownReq u (auth_header c) (ConnectRead 10 30))]
     \<and> ticks s' = ticks s"
  by (auto simp: post_share_down_def Let_def emit_def split: http_result.splits if_splits option.splits)

lemma post_share_down_401:
  "cms_post w (length (trace s)) (ShareDownReq u (auth_header c) (ConnectRead 10 30)) = Response 401 b \<Longrightarrow>
   post_share_down w c u s =
     (Inl (HTTPError 401), emit (CmsPost (ShareDownReq u (auth_header c) (ConnectRead 10 30))) s)"
  by (simp add: post_share_down_def raise_for_status_def)

lemma ensure_then_post_posts:
  "ensure_then_post w c u s = (r, c', s') \<Longrightarrow> share_posts (trace s') \<le> share_posts (trace s) + 1"
  by (auto simp: ensure_then_post_def share_posts_def split: prod.splits sum.splits
           dest!: ensure_share_posts[unfolded share_posts_def] post_share_down_trace)

lemma add_share_down_at_most_two_posts:
  assumes "add_share_down w c u s = (r, c', s')"
  shows "share_posts (trace s') \<le> share_posts (trace s) + 2"
proof (cases "truthy u")
  case False
  with assms show ?thesis by (simp add: add_share_down_def)
next
  case True
  obtain r1 c1 s1 where e1: "ensure_then_post w c u s = (r1, c1, s1)"
    by (cases "ensure_then_post w c u s") auto
  have b1: "share_posts (trace s1) \<le> share_posts (trace s) + 1"
    using ensure_then_post_posts[OF e1] .
  show ?thesis
  proof (cases "r1 = Inl (HTTPError 401)")
    case True
    with \<open>truthy u\<close> e1 assms have "ensure_then_post w (c1\<lparr>token := PNone\<rparr>) u s1 = (r, c', s')"
      by (simp add: add_share_down_def)
    from ensure_then_post_posts[OF this] b1 show ?thesis by simp
  next
    case False
    with \<open>truthy u\<close> e1 assms have "s' = s1"
      by (auto simp: add_share_down_def split: sum.splits exn.splits if_splits)
    with b1 show ?thesis by simp
  qed
qed

text \<open>
  C9. A call of \<open>add_share_down\<close> with an empty URL (or \<open>None\<close>) raises \<open>ValueError\<close>
  at once: the client, its token included, and the trace of requests are unchanged, and
  the clock is not read.
\<close>

theorem add_share_down_empty_url:
  "add_share_down w c (PStr []) s = (Inl ValueError, c, s)
   \<and> add_share_down w c PNone s = (Inl ValueError, c, s)"
  by (simp add: add_share_down_def)

text \<open>
  C3. Let the token be ensured and the first post of a non-empty URL be answered 401.
  Then the token is discarded and a login is attempted (the two events after the
  ensured state are the post and the login). If the login fails, its exception is the
  result and nothing more is posted. If it succeeds, the client holds the new token
  and exactly one more post follows; a 401 answer to that second post is raised as
  \<open>HTTPError 401\<close>. In every case the call posts the URL at most twice.
\<close>

theorem add_share_down_retry_once:
  assumes nonempty: "truthy u"
    and ensured: "ensure_valid_token w c s = (Inr (), c1, s1)"
    and first_401: "cms_post w (length (trace s1)) (ShareDownReq u (auth_header c1) (ConnectRead 10 30))
                      = Response 401 b1"
    and result: "add_share_down w c u s = (r, c', s')"
    and relogin: "ensure_valid_token w (c1\<lparr>token := PNone\<rparr>)
                    (emit (CmsPost (ShareDownReq u (auth_header c1) (ConnectRead 10 30))) s1)
                      = (r3, c3, s3)"
  shows "trace s3 = trace s1 @ [CmsPost (ShareDownReq u (auth_header c1) (ConnectRead 10 30)),
                               CmsPost (LoginReq (username c1) (password c1) (auth_header c1) (ConnectRead 10 30))]
       \<and> c' = c3
       \<and> (case r3 of
            Inl e \<Rightarrow> r = Inl e \<and> s' = s3 \<and> c3 = c1\<lparr>token := PNone\<rparr>
          | Inr _ \<Rightarrow>
              trace s' = trace s3 @ [CmsPost (ShareDownReq u (auth_header c3) (ConnectRead 10 30))]
              \<and> (\<exists>t. c3 = c1\<lparr>token := t, token_expiry := clock w (ticks s1) + 86400,
                              auth_header := Some t\<rparr>)
              \<and> (\<forall>b2. cms_post w (length (trace s3))
                           (ShareDownReq u (auth_header c3) (ConnectRead 10 30)) = Response 401 b2
                    \<longrightarrow> r = Inl (HTTPError 401)))
       \<and> share_posts (trace s') \<le> share_posts (trace s) + 2"
proof -
  let ?req1 = "ShareDownReq u (auth_header c1) (ConnectRead 10 30)"
  let ?s2 = "emit (CmsPost ?req1) s1"
  let ?c2 = "c1\<lparr>token := PNone\<rparr>"
  have p1: "post_share_down w c1 u s1 = (Inl (HTTPError 401), ?s2)"
    using first_401 by (rule post_share_down_401)
  have e1: "ensure_then_post w c u s = (Inl (HTTPError 401), c1, ?s2)"
    using ensured p1 by (simp add: ensure_then_post_def)
  have res: "ensure_then_post w ?c2 u ?s2 = (r, c', s')"
    using nonempty e1 result by (simp add: add_share_down_def)
  have st: "stale ?c2 (clock w (ticks ?s2))" by (simp add: stale_def)
  have tk: "ticks ?s2 = ticks s1" by (simp add: emit_def)
  have "trace s3 = trace ?s2 @
          [CmsPost (LoginReq (username ?c2) (password ?c2) (auth_header ?c2) (ConnectRead 10 30))]"
    using ensure_stale(1)[OF st relogin] .
  hence A: "trace s3 = trace s1 @ [CmsPost ?req1,
              CmsPost (LoginReq (username c1) (password c1) (auth_header c1) (ConnectRead 10 30))]"
    by (simp add: emit_def)
  have B: "c' = c3"
    using res relogin by (auto simp: ensure_then_post_def split: sum.splits prod.splits)
  have C: "(case r3 of
            Inl e \<Rightarrow> r = Inl e \<and> s' = s3 \<and> c3 = c1\<lparr>token := PNone\<rparr>
          | Inr _ \<Rightarrow>
              trace s' = trace s3 @ [CmsPost (ShareDownReq u (auth_header c3) (ConnectRead 10 30))]
              \<and> (\<exists>t. c3 = c1\<lparr>token := t, token_expiry := clock w (ticks s1) + 86400,
                              auth_header := Some t\<rparr>)
              \<and> (\<forall>b2. cms_post w (length (trace s3))
                           (ShareDownReq u (auth_header c3) (ConnectRead 10 30)) = Response 401 b2
                    \<longrightarrow> r = Inl (HTTPError 401)))"
  proof (cases r3)
    case (Inl e)
    have "c3 = ?c2" using ensure_stale(4)[OF st relogin] Inl by simp
    moreover have "r = Inl e \<and> s' = s3"
      using res relogin Inl by (simp add: ensure_then_post_def)
    ultimately show ?thesis using Inl by simp
  next
    case (Inr x)
    hence r3u: "r3 = Inr ()" by simp
    from ensure_stale(3)[OF st relogin r3u] tk
    have ex: "\<exists>t. c3 = c1\<lparr>token := t, token_expiry := clock w (ticks s1) + 86400,
                            auth_header := Some t\<rparr>"
      by auto
    have ps: "post_share_down w c3 u s3 = (r, s')"
      using res relogin r3u by (auto simp: ensure_then_post_def split: prod.splits)
    have t2: "trace s' = trace s3 @ [CmsPost (ShareDownReq u (auth_header c3) (ConnectRead 10 30))]"
      using post_share_down_trace[OF ps] by simp
    have r2: "\<forall>b2. cms_post w (length (trace s3))
                      (ShareDownReq u (auth_header c3) (ConnectRead 10 30)) = Response 401 b2
                    \<longrightarrow> r = Inl (HTTPError 401)"
      using ps by (auto dest: post_share_down_401)
    show ?thesis using Inr ex t2 r2 by simp
  qed
  from A B C add_share_down_at_most_two_posts[OF result] show ?thesis by blast
qed

lemma rejecting_ensure:
  "ensure_valid_token rejecting_world fresh_client rt0 =
     (Inr (), logged_in_client,
      \<lparr>trace = [CmsPost (LoginReq (py ''u'') (py ''p'') None (ConnectRead 10 30))], ticks = 1\<rparr>)"
  by (simp add: ensure_valid_token_def time_time_def stale_def login_def rejecting_world_def
        login_reply_def fresh_client_def rt0_def emit_def raise_for_status_def logged_in_client_def)

lemma rejecting_first_post:
  "cms_post rejecting_world
     (length (trace \<lparr>trace = [CmsPost (LoginReq (py ''u'') (py ''p'') None (ConnectRead 10 30))], ticks = 1\<rparr>))
     (ShareDownReq (PStr (py ''x'')) (auth_header logged_in_client) (ConnectRead 10 30))
   = Response 401 None"
  by (simp add: rejecting_world_def)

lemma rejecting_relogin:
  "ensure_valid_token rejecting_world (logged_in_client\<lparr>token := PNone\<rparr>)
     (emit (CmsPost (ShareDownReq (PStr (py ''x'')) (auth_header logged_in_client) (ConnectRead 10 30)))
        \<lparr>trace = [CmsPost (LoginReq (py ''u'') (py ''p'') None (ConnectRead 10 30))], ticks = 1\<rparr>)
   = (Inr (), logged_in_client\<lparr>token_expiry := 87401\<rparr>,
      \<lparr>trace = [CmsPost (LoginReq (py ''u'') (py ''p'') None (ConnectRead 10 30)),
                CmsPost (ShareDownReq (PStr (py ''x'')) (Some (PStr (py ''t1''))) (ConnectRead 10 30)),
                CmsPost (LoginReq (py ''u'') (py ''p'') (Some (PStr (py ''t1''))) (ConnectRead 10 30))],
        ticks = 2\<rparr>)"
  by (simp add: ensure_valid_token_def time_time_def stale_def login_def rejecting_world_def
        login_reply_def emit_def raise_for_status_def logged_in_client_def)

lemma rejecting_result:
  "add_share_down rejecting_world fresh_client (PStr (py ''x'')) rt0 =
     (Inl (HTTPError 401), logged_in_client\<lparr>token_expiry := 87401\<rparr>,
      \<lparr>trace = [CmsPost (LoginReq (py ''u'') (py ''p'') None (ConnectRead 10 30)),
                CmsPost (ShareDownReq (PStr (py ''x'')) (Some (PStr (py ''t1''))) (ConnectRead 10 30)),
                CmsPost (LoginReq (py ''u'') (py ''p'') (Some (PStr (py ''t1''))) (ConnectRead 10 30)),
                CmsPost (ShareDownReq (PStr (py ''x'')) (Some (PStr (py ''t1''))) (ConnectRead 10 30))],
        ticks = 2\<rparr>)"
  by (simp add: add_share_down_def ensure_then_post_def post_share_down_def
        logged_in_client_def fresh_client_def rt0_def rejecting_world_def emit_def
        raise_for_status_def ensure_valid_token_def time_time_def stale_def login_def
        login_reply_def)

text \<open>
  The transfer system that answers every enqueue with 401: the token is ensured, the
  post is answered 401, a second login follows and the second post is answered 401
  too; the call ends with \<open>HTTPError 401\<close> after two posts.
\<close>

theorem add_share_down_retry_once_witness:
  "truthy (PStr (py ''x''))
   \<and> fst (add_share_down rejecting_world fresh_client (PStr (py ''x'')) rt0) = Inl (HTTPError 401)
   \<and> share_posts (trace (snd (snd (add_share_down rejecting_world fresh_client (PStr (py ''x'')) rt0))))
       \<le> share_posts (trace rt0) + 2"
proof -
  have a: "truthy (PStr (py ''x''))" by simp
  note w = add_share_down_retry_once[OF a rejecting_ensure rejecting_first_post
             rejecting_result rejecting_relogin]
  have b: "fst (add_share_down rejecting_world fresh_client (PStr (py ''x'')) rt0)
             = Inl (HTTPError 401)"
    unfolding rejecting_result by simp
  from w have c: "share_posts (trace (snd (snd (add_share_down rejecting_world fresh_client
                     (PStr (py ''x'')) rt0)))) \<le> share_posts (trace rt0) + 2"
    unfolding rejecting_result snd_conv by (elim conjE)
  from a b c show ?thesis by (intro conjI)
qed

text \<open>
  C6. \<open>_ensure_valid_token\<close> logs in exactly when no token is held or the clock
  reading is at least \<open>token_expiry - 3600\<close>. A successful login replaces the token
  and sets the expiry to the reading plus 86400; a failed one leaves the client as it
  was. A token that is held and not stale makes the call change nothing, so a second
  call right after a successful one (less than 82800 seconds after a refresh) changes
  nothing, provided the token obtained is not an empty one.
\<close>

theorem ensure_valid_token_refresh:
  assumes call: "ensure_valid_token w c s = (r, c', s')"
  shows "(stale c (clock w (ticks s)) \<longleftrightarrow>
            \<not> truthy (token c) \<or> clock w (ticks s) \<ge> token_expiry c - 3600)
       \<and> (\<not> stale c (clock w (ticks s)) \<longrightarrow> r = Inr () \<and> c' = c \<and> trace s' = trace s)
       \<and> (stale c (clock w (ticks s)) \<longrightarrow>
            trace s' = trace s @ [CmsPost (LoginReq (username c) (password c) (auth_header c) (ConnectRead 10 30))]
            \<and> (r = Inr () \<longrightarrow>
                 (\<exists>t. c' = c\<lparr>token := t, token_expiry := clock w (ticks s) + 86400,
                               auth_header := Some t\<rparr>))
            \<and> (r \<noteq> Inr () \<longrightarrow> c' = c))
       \<and> (r = Inr () \<and> truthy (token c') \<and> clock w (ticks s') < token_expiry c' - 3600 \<longrightarrow>
            ensure_valid_token w c' s' = (Inr (), c', s'\<lparr>ticks := Suc (ticks s')\<rparr>))
       \<and> (stale c (clock w (ticks s)) \<and> r = Inr () \<and> truthy (token c')
            \<and> clock w (ticks s') < clock w (ticks s) + 82800 \<longrightarrow>
            ensure_valid_token w c' s' = (Inr (), c', s'\<lparr>ticks := Suc (ticks s')\<rparr>))"
proof -
  have A: "stale c (clock w (ticks s)) \<longleftrightarrow>
            \<not> truthy (token c) \<or> clock w (ticks s) \<ge> token_expiry c - 3600"
    by (simp add: stale_def)
  have B: "\<not> stale c (clock w (ticks s)) \<longrightarrow> r = Inr () \<and> c' = c \<and> trace s' = trace s"
    using call by (auto simp: ensure_fresh)
  have C: "stale c (clock w (ticks s)) \<longrightarrow>
            trace s' = trace s @ [CmsPost (LoginReq (username c) (password c) (auth_header c) (ConnectRead 10 30))]
            \<and> (r = Inr () \<longrightarrow>
                 (\<exists>t. c' = c\<lparr>token := t, token_expiry := clock w (ticks s) + 86400,
                               auth_header := Some t\<rparr>))
            \<and> (r \<noteq> Inr () \<longrightarrow> c' = c)"
    using ensure_stale[OF _ call] by blast
  have D: "r = Inr () \<and> truthy (token c') \<and> clock w (ticks s') < token_expiry c' - 3600 \<longrightarrow>
            ensure_valid_token w c' s' = (Inr (), c', s'\<lparr>ticks := Suc (ticks s')\<rparr>)"
    by (auto simp: stale_def intro!: ensure_fresh)
  have E: "stale c (clock w (ticks s)) \<and> r = Inr () \<and> truthy (token c')
            \<and> clock w (ticks s') < clock w (ticks s) + 82800 \<longrightarrow>
            ensure_valid_token w c' s' = (Inr (), c', s'\<lparr>ticks := Suc (ticks s')\<rparr>)"
  proof (intro impI, elim conjE)
    assume st: "stale c (clock w (ticks s))" and ok: "r = Inr ()" and tt: "truthy (token c')"
      and lt: "clock w (ticks s') < clock w (ticks s) + 82800"
    from ensure_stale(3)[OF st call ok] have "token_expiry c' = clock w (ticks s) + 86400" by auto
    with tt lt have "\<not> stale c' (clock w (ticks s'))" by (simp add: stale_def)
    thus "ensure_valid_token w c' s' = (Inr (), c', s'\<lparr>ticks := Suc (ticks s')\<rparr>)"
      by (rule ensure_fresh)
  qed
  from A B C D E show ?thesis by blast
qed

lemma logged_in_not_stale:
  "truthy (token logged_in_client)
   \<and> clock rejecting_world (ticks \<lparr>trace = [CmsPost (LoginReq (py ''u'') (py ''p'') None
         (ConnectRead 10 30))], ticks = 1\<rparr>) < token_expiry logged_in_client - 3600"
  by (simp add: logged_in_client_def rejecting_world_def)

theorem ensure_valid_token_refresh_witness:
  "ensure_valid_token rejecting_world fresh_client rt0 =
     (Inr (), logged_in_client,
      \<lparr>trace = [CmsPost (LoginReq (py ''u'') (py ''p'') None (ConnectRead 10 30))], ticks = 1\<rparr>)
   \<and> ensure_valid_token rejecting_world logged_in_client
        \<lparr>trace = [CmsPost (LoginReq (py ''u'') (py ''p'') None (ConnectRead 10 30))], ticks = 1\<rparr>
      = (Inr (), logged_in_client,
         \<lparr>trace = [CmsPost (LoginReq (py ''u'') (py ''p'') None (ConnectRead 10 30))], ticks = 1\<rparr>
           \<lparr>ticks := Suc (ticks \<lparr>trace = [CmsPost (LoginReq (py ''u'') (py ''p'') None
                (ConnectRead 10 30))], ticks = 1\<rparr>)\<rparr>)"
proof -
  note w = ensure_valid_token_refresh[OF rejecting_ensure]
  from w logged_in_not_stale
  have "ensure_valid_token rejecting_world logged_in_client
        \<lparr>trace = [CmsPost (LoginReq (py ''u'') (py ''p'') None (ConnectRead 10 30))], ticks = 1\<rparr>
      = (Inr (), logged_in_client,
         \<lparr>trace = [CmsPost (LoginReq (py ''u'') (py ''p'') None (ConnectRead 10 30))], ticks = 1\<rparr>
           \<lparr>ticks := Suc (ticks \<lparr>trace = [CmsPost (LoginReq (py ''u'') (py ''p'') None
                (ConnectRead 10 30))], ticks = 1\<rparr>)\<rparr>)"
    by blast
  with rejecting_ensure show ?thesis by (intro conjI)
qed

section \<open>Properties of NullbrApiClient\<close>

lemma make_request_proxied:
  "make_request send ep app key True s =
     (send (length (trace s)) (proxied_request ep app key),
      emit (ApiGet (proxied_request ep app key)) s)"
  by (simp add: make_request_def proxied_request_def Let_def)

lemma make_request_direct:
  "make_request send ep app key False s =
     (send (length (trace s)) (direct_request ep app key),
      emit (ApiGet (direct_request ep app key)) s)"
  by (simp add: make_request_def direct_request_def Let_def)

lemma request_with_fallback_cases:
  assumes "request_with_fallback send ep app key s = (r, s')"
  shows "(case send (length (trace s)) (proxied_request ep app key) of
            Response st body \<Rightarrow>
              r = Inr (st, body) \<and> trace s' = trace s @ [ApiGet (proxied_request ep app key)]
          | Raises e \<Rightarrow>
              if proxy_failure e then
                trace s' = trace s @ [ApiGet (proxied_request ep app key),
                                      ApiGet (direct_request ep app key)]
                \<and> (case send (Suc (length (trace s))) (direct_request ep app key) of
                      Response st body \<Rightarrow> r = Inr (st, body)
                    | Raises direct_e \<Rightarrow> r = Inl direct_e)
              else r = Inl e \<and> trace s' = trace s @ [ApiGet (proxied_request ep app key)])"
  using assms
  by (auto simp: request_with_fallback_def make_request_proxied make_request_direct emit_def
           split: http_result.splits if_splits)

lemma search_uses_fallback:
  "snd (search w cl q page s) =
     snd (request_with_fallback (search_get w) (SearchEP q page) (app_id cl)
            (if has_key (client_api_key cl) then client_api_key cl else None) s)
   \<and> (\<forall>e. fst (request_with_fallback (search_get w) (SearchEP q page) (app_id cl)
                  (if has_key (client_api_key cl) then client_api_key cl else None) s) = Inl e
          \<longrightarrow> fst (search w cl q page s) = None)"
  by (auto simp: search_def Let_def split: prod.splits sum.splits)

lemma get_resources_uses_fallback:
  "has_key (client_api_key cl) \<Longrightarrow>
   snd (get_resources w cl ep s) =
     snd (request_with_fallback (resource_get w) ep (app_id cl) (client_api_key cl) s)
   \<and> (\<forall>e. fst (request_with_fallback (resource_get w) ep (app_id cl) (client_api_key cl) s) = Inl e
          \<longrightarrow> fst (get_resources w cl ep s) = None)"
  by (auto simp: get_resources_def split: prod.splits sum.splits)

text \<open>
  C8. Every request of the API client (\<open>search\<close>, \<open>get_movie_resources\<close>,
  \<open>get_tv_resources\<close>) goes through the same two-step block. The first attempt uses the
  proxy and a timeout of 5 seconds. A response to it, whatever its status, ends the
  block with that response after one request. A timeout or connection error is followed
  by exactly one attempt without the proxy, with the timeout (10, 30); its response is
  the result, and if it raises the call ends without a result (\<open>None\<close>). Any other
  exception of the first attempt ends the call after one request.
\<close>

theorem request_with_fallback_paths:
  assumes "request_with_fallback send ep app key s = (r, s')"
  shows "(case send (length (trace s)) (proxied_request ep app key) of
            Response st body \<Rightarrow>
              r = Inr (st, body) \<and> trace s' = trace s @ [ApiGet (proxied_request ep app key)]
          | Raises e \<Rightarrow>
              if proxy_failure e then
                trace s' = trace s @ [ApiGet (proxied_request ep app key),
                                      ApiGet (direct_request ep app key)]
                \<and> (case send (Suc (length (trace s))) (direct_request ep app key) of
                      Response st body \<Rightarrow> r = Inr (st, body)
                    | Raises direct_e \<Rightarrow> r = Inl direct_e)
              else r = Inl e \<and> trace s' = trace s @ [ApiGet (proxied_request ep app key)])
       \<and> rq_use_proxy (proxied_request ep app key)
       \<and> rq_timeout (proxied_request ep app key) = Single 5
       \<and> \<not> rq_use_proxy (direct_request ep app key)
       \<and> rq_timeout (direct_request ep app key) = ConnectRead 10 30
       \<and> proxy_failure Timeout \<and> proxy_failure ConnectTimeout
       \<and> proxy_failure ReadTimeout \<and> proxy_failure ConnectionError
       \<and> snd (search w cl q page s0) =
           snd (request_with_fallback (search_get w) (SearchEP q page) (app_id cl)
                  (if has_key (client_api_key cl) then client_api_key cl else None) s0)
       \<and> (\<forall>e. fst (request_with_fallback (search_get w) (SearchEP q page) (app_id cl)
                  (if has_key (client_api_key cl) then client_api_key cl else None) s0) = Inl e
              \<longrightarrow> fst (search w cl q page s0) = None)
       \<and> (has_key (client_api_key cl) \<longrightarrow>
            snd (get_movie_resources w cl tmdbid resource_type s0) =
              snd (request_with_fallback (resource_get w) (MovieEP tmdbid resource_type)
                     (app_id cl) (client_api_key cl) s0)
            \<and> (\<forall>e. fst (request_with_fallback (resource_get w) (MovieEP tmdbid resource_type)
                           (app_id cl) (client_api_key cl) s0) = Inl e
                   \<longrightarrow> fst (get_movie_resources w cl tmdbid resource_type s0) = None)
            \<and> snd (get_tv_resources w cl tmdbid resource_type s0) =
              snd (request_with_fallback (resource_get w) (TvEP tmdbid resource_type)
                     (app_id cl) (client_api_key cl) s0)
            \<and> (\<forall>e. fst (request_with_fallback (resource_get w) (TvEP tmdbid resource_type)
                           (app_id cl) (client_api_key cl) s0) = Inl e
                   \<longrightarrow> fst (get_tv_resources w cl tmdbid resource_type s0) = None))"
proof -
  note A = request_with_fallback_cases[OF assms]
  have B: "rq_use_proxy (proxied_request ep app key)
       \<and> rq_timeout (proxied_request ep app key) = Single 5
       \<and> \<not> rq_use_proxy (direct_request ep app key)
       \<and> rq_timeout (direct_request ep app key) = ConnectRead 10 30
       \<and> proxy_failure Timeout \<and> proxy_failure ConnectTimeout
       \<and> proxy_failure ReadTimeout \<and> proxy_failure ConnectionError"
    by (simp add: proxied_request_def direct_request_def proxy_failure_def)
  note C = search_uses_fallback[of w cl q page s0]
  have D: "has_key (client_api_key cl) \<longrightarrow>
            snd (get_movie_resources w cl tmdbid resource_type s0) =
              snd (request_with_fallback (resource_get w) (MovieEP tmdbid resource_type)
                     (app_id cl) (client_api_key cl) s0)
            \<and> (\<forall>e. fst (request_with_fallback (resource_get w) (MovieEP tmdbid resource_type)
                           (app_id cl) (client_api_key cl) s0) = Inl e
                   \<longrightarrow> fst (get_movie_resources w cl tmdbid resource_type s0) = None)
            \<and> snd (get_tv_resources w cl tmdbid resource_type s0) =
              snd (request_with_fallback (resource_get w) (TvEP tmdbid resource_type)
                     (app_id cl) (client_api_key cl) s0)
            \<and> (\<forall>e. fst (request_with_fallback (resource_get w) (TvEP tmdbid resource_type)
                           (app_id cl) (client_api_key cl) s0) = Inl e
                   \<longrightarrow> fst (get_tv_resources w cl tmdbid resource_type s0) = None)"
    unfolding get_movie_resources_def get_tv_resources_def
    using get_resources_uses_fallback[of cl w "MovieEP tmdbid resource_type" s0]
          get_resources_uses_fallback[of cl w "TvEP tmdbid resource_type" s0]
    by blast
  from A B C D show ?thesis by (intro conjI) blast+
qed

lemma proxy_down_fallback:
  "request_with_fallback (resource_get proxy_down_world) (MovieEP (PInt 603) (py ''115''))
     (py ''app'') (Some (py ''key'')) rt0 =
   (Inr (200, Some demo_resources),
    \<lparr>trace = [ApiGet (proxied_request (MovieEP (PInt 603) (py ''115'')) (py ''app'') (Some (py ''key''))),
              ApiGet (direct_request (MovieEP (PInt 603) (py ''115'')) (py ''app'') (Some (py ''key'')))],
     ticks = 0\<rparr>)"
  by (simp add: request_with_fallback_def make_request_def Let_def proxy_down_world_def
        proxy_failure_def emit_def rt0_def proxied_request_def direct_request_def)

text \<open>
  With an unreachable proxy the lookup makes the proxied request and then the direct
  one, whose answer it returns; when both paths time out it returns \<open>None\<close> after the
  same two requests.
\<close>

theorem request_with_fallback_paths_witness:
  "trace \<lparr>trace = [ApiGet (proxied_request (MovieEP (PInt 603) (py ''115'')) (py ''app'') (Some (py ''key''))),
                   ApiGet (direct_request (MovieEP (PInt 603) (py ''115'')) (py ''app'') (Some (py ''key'')))],
          ticks = 0\<rparr>
     = trace rt0 @ [ApiGet (proxied_request (MovieEP (PInt 603) (py ''115'')) (py ''app'') (Some (py ''key''))),
                    ApiGet (direct_request (MovieEP (PInt 603) (py ''115'')) (py ''app'') (Some (py ''key'')))]
   \<and> get_movie_resources proxy_down_world demo_api_client (PInt 603) (py ''115'') rt0 =
       (Some demo_resources,
        \<lparr>trace = [ApiGet (proxied_request (MovieEP (PInt 603) (py ''115'')) (py ''app'') (Some (py ''key''))),
                  ApiGet (direct_request (MovieEP (PInt 603) (py ''115'')) (py ''app'') (Some (py ''key'')))],
         ticks = 0\<rparr>)
   \<and> get_movie_resources unreachable_world demo_api_client (PInt 603) (py ''115'') rt0 =
       (None,
        \<lparr>trace = [ApiGet (proxied_request (MovieEP (PInt 603) (py ''115'')) (py ''app'') (Some (py ''key''))),
                  ApiGet (direct_request (MovieEP (PInt 603) (py ''115'')) (py ''app'') (Some (py ''key'')))],
         ticks = 0\<rparr>)"
proof -
  have raised: "resource_get proxy_down_world (length (trace rt0))
                  (proxied_request (MovieEP (PInt 603) (py ''115'')) (py ''app'') (Some (py ''key'')))
                = Raises ConnectTimeout"
    by (simp add: proxy_down_world_def proxied_request_def)
  have pf: "proxy_failure ConnectTimeout" by (simp add: proxy_failure_def)
  from request_with_fallback_paths[OF proxy_down_fallback,
         where w = proxy_down_world and cl = demo_api_client and q = "[]" and page = 1
           and ?s0.0 = rt0 and tmdbid = "PInt 603" and resource_type = "py ''115''"]
  have a: "trace \<lparr>trace = [ApiGet (proxied_request (MovieEP (PInt 603) (py ''115'')) (py ''app'') (Some (py ''key''))),
                   ApiGet (direct_request (MovieEP (PInt 603) (py ''115'')) (py ''app'') (Some (py ''key'')))],
          ticks = 0\<rparr>
     = trace rt0 @ [ApiGet (proxied_request (MovieEP (PInt 603) (py ''115'')) (py ''app'') (Some (py ''key''))),
                    ApiGet (direct_request (MovieEP (PInt 603) (py ''115'')) (py ''app'') (Some (py ''key'')))]"
    unfolding raised http_result.case if_P[OF pf] by blast
  have b: "get_movie_resources proxy_down_world demo_api_client (PInt 603) (py ''115'') rt0 =
       (Some demo_resources,
        \<lparr>trace = [ApiGet (proxied_request (MovieEP (PInt 603) (py ''115'')) (py ''app'') (Some (py ''key''))),
                  ApiGet (direct_request (MovieEP (PInt 603) (py ''115'')) (py ''app'') (Some (py ''key'')))],
         ticks = 0\<rparr>)"
    by (simp add: get_movie_resources_def get_resources_def demo_api_client_def has_key_def
          request_with_fallback_def make_request_def Let_def proxy_down_world_def
          proxy_failure_def emit_def rt0_def proxied_request_def direct_request_def)
  have c: "get_movie_resources unreachable_world demo_api_client (PInt 603) (py ''115'') rt0 =
       (None,
        \<lparr>trace = [ApiGet (proxied_request (MovieEP (PInt 603) (py ''115'')) (py ''app'') (Some (py ''key''))),
                  ApiGet (direct_request (MovieEP (PInt 603) (py ''115'')) (py ''app'') (Some (py ''key'')))],
         ticks = 0\<rparr>)"
    by (simp add: get_movie_resources_def get_resources_def demo_api_client_def has_key_def
          request_with_fallback_def make_request_def Let_def unreachable_world_def
          proxy_failure_def emit_def rt0_def proxied_request_def direct_request_def)
  from a b c show ?thesis by (intro conjI)
qed

lemma get_resources_status:
  assumes "has_key (client_api_key cl)"
    and "request_with_fallback (resource_get w) ep (app_id cl) (client_api_key cl) s
           = (Inr (st, body), s')"
  shows "(st \<noteq> 200 \<longrightarrow> get_resources w cl ep s = (None, s'))
       \<and> (st = 200 \<longrightarrow> get_resources w cl ep s = (body, s'))
       \<and> (400 \<le> st \<and> st < 600 \<longrightarrow> nc_get_resources w cl ep s = (None, s'))
       \<and> (\<not> (400 \<le> st \<and> st < 600) \<longrightarrow> nc_get_resources w cl ep s = (body, s'))"
  using assms by (simp add: get_resources_def nc_get_resources_def raise_for_status_def)

text \<open>
  C5, as the code has it. A lookup whose request is answered with a status other than
  200 returns \<open>None\<close>, for 404 exactly as for 401, 403, 429 and the rest; only status
  200 returns the parsed body. In \<open>nullbr_client.py\<close> every 4xx and 5xx status, 404
  among them, returns \<open>None\<close>, and every other status returns the parsed body.
\<close>

theorem resource_lookup_status:
  assumes "has_key (client_api_key cl)"
  shows "(\<forall>st body s'.
            request_with_fallback (resource_get w) (MovieEP tmdbid resource_type) (app_id cl)
              (client_api_key cl) s = (Inr (st, body), s') \<longrightarrow>
              (st \<noteq> 200 \<longrightarrow> get_movie_resources w cl tmdbid resource_type s = (None, s'))
            \<and> (st = 200 \<longrightarrow> get_movie_resources w cl tmdbid resource_type s = (body, s'))
            \<and> (400 \<le> st \<and> st < 600 \<longrightarrow>
                  nc_get_movie_resources w cl tmdbid resource_type s = (None, s'))
            \<and> (\<not> (400 \<le> st \<and> st < 600) \<longrightarrow>
                  nc_get_movie_resources w cl tmdbid resource_type s = (body, s')))
       \<and> (\<forall>st body s'.
            request_with_fallback (resource_get w) (TvEP tmdbid resource_type) (app_id cl)
              (client_api_key cl) s = (Inr (st, body), s') \<longrightarrow>
              (st \<noteq> 200 \<longrightarrow> get_tv_resources w cl tmdbid resource_type s = (None, s'))
            \<and> (st = 200 \<longrightarrow> get_tv_resources w cl tmdbid resource_type s = (body, s'))
            \<and> (400 \<le> st \<and> st < 600 \<longrightarrow>
                  nc_get_tv_resources w cl tmdbid resource_type s = (None, s'))
            \<and> (\<not> (400 \<le> st \<and> st < 600) \<longrightarrow>
                  nc_get_tv_resources w cl tmdbid resource_type s = (body, s')))"
  unfolding get_movie_resources_def get_tv_resources_def
    nc_get_movie_resources_def nc_get_tv_resources_def
  using get_resources_status[OF assms] by blast

lemma status_404_fallback:
  "request_with_fallback (resource_get (status_world 404)) (MovieEP (PInt 603) (py ''115''))
     (app_id demo_api_client) (client_api_key demo_api_client) rt0 =
   (Inr (404, Some demo_resources),
    \<lparr>trace = [ApiGet (proxied_request (MovieEP (PInt 603) (py ''115'')) (py ''app'') (Some (py ''key'')))],
     ticks = 0\<rparr>)"
  by (simp add: request_with_fallback_def make_request_def Let_def status_world_def
        demo_api_client_def emit_def rt0_def proxied_request_def)

lemma demo_api_client_has_key: "has_key (client_api_key demo_api_client)"
  by (simp add: has_key_def demo_api_client_def)

theorem resource_lookup_status_witness:
  "has_key (client_api_key demo_api_client)
   \<and> get_movie_resources (status_world 404) demo_api_client (PInt 603) (py ''115'') rt0 =
       (None,
        \<lparr>trace = [ApiGet (proxied_request (MovieEP (PInt 603) (py ''115'')) (py ''app'') (Some (py ''key'')))],
         ticks = 0\<rparr>)"
proof -
  have ne: "(404::nat) \<noteq> 200" by simp
  from resource_lookup_status[OF demo_api_client_has_key, of "status_world 404" "PInt 603" "py ''115''" rt0]
       status_404_fallback ne
  have "get_movie_resources (status_world 404) demo_api_client (PInt 603) (py ''115'') rt0 =
       (None,
        \<lparr>trace = [ApiGet (proxied_request (MovieEP (PInt 603) (py ''115'')) (py ''app'') (Some (py ''key'')))],
         ticks = 0\<rparr>)"
    by blast
  with demo_api_client_has_key show ?thesis by (intro conjI)
qed

text \<open>
  C5 as the spec states it fails: a lookup answered 404 and the same lookup answered
  401 have the same outcome, \<open>None\<close> after the same single request, in both versions
  of the client and for movies and series alike. The 404 answer is not told apart from
  a failure.
\<close>

theorem not_found_is_not_distinct:
  "get_movie_resources (status_world 404) demo_api_client (PInt 603) (py ''115'') rt0
     = get_movie_resources (status_world 401) demo_api_client (PInt 603) (py ''115'') rt0
   \<and> fst (get_movie_resources (status_world 404) demo_api_client (PInt 603) (py ''115'') rt0) = None
   \<and> get_tv_resources (status_world 404) demo_api_client (PInt 603) (py ''115'') rt0
     = get_tv_resources (status_world 401) demo_api_client (PInt 603) (py ''115'') rt0
   \<and> fst (get_tv_resources (status_world 404) demo_api_client (PInt 603) (py ''115'') rt0) = None
   \<and> nc_get_movie_resources (status_world 404) demo_api_client (PInt 603) (py ''115'') rt0
     = nc_get_movie_resources (status_world 401) demo_api_client (PInt 603) (py ''115'') rt0
   \<and> fst (nc_get_movie_resources (status_world 404) demo_api_client (PInt 603) (py ''115'') rt0) = None
   \<and> nc_get_tv_resources (status_world 404) demo_api_client (PInt 603) (py ''115'') rt0
     = nc_get_tv_resources (status_world 401) demo_api_client (PInt 603) (py ''115'') rt0
   \<and> fst (nc_get_tv_resources (status_world 404) demo_api_client (PInt 603) (py ''115'') rt0) = None"
  by (simp add: get_movie_resources_def get_tv_resources_def nc_get_movie_resources_def
        nc_get_tv_resources_def get_resources_def nc_get_resources_def demo_api_client_def
        has_key_def request_with_fallback_def make_request_def Let_def status_world_def
        raise_for_status_def)

section \<open>Properties of the plugin\<close>

lemma trace_post_message:
  "trace (post_message channel userid m s) = trace s @ [PostMessage channel userid m]"
  by (simp add: post_message_def emit_def)

lemma get_resources_by_priority_no_id:
  "\<not> truthy (getv selected (py ''tmdbid'')) \<Longrightarrow>
   get_resources_by_priority w p selected channel userid s =
     (p, post_message channel userid MsgMissingTmdbId s)"
  by (simp add: get_resources_by_priority_def Let_def)

text \<open>
  C10. For a hit without a TMDB id (absent, \<open>None\<close>, 0 or empty),
  \<open>get_resources_by_priority\<close> posts the error text and does nothing else: the plugin,
  with both caches, is unchanged and the only new event is the reply. The same holds
  for \<open>handle_get_resources\<close> when the number selects such a hit of a live search
  entry and an API key is configured, and for \<open>handle_resource_selection\<close>, which
  posts its progress notice before it calls the priority lookup (or, when the year of
  the hit cannot be sliced, posts its own error text and calls nothing).
\<close>

theorem missing_tmdbid_no_fetch:
  assumes "\<not> truthy (getv selected (py ''tmdbid''))"
  shows "get_resources_by_priority w p selected channel userid s =
           (p, post_message channel userid MsgMissingTmdbId s)
       \<and> trace (snd (get_resources_by_priority w p selected channel userid s)) =
           trace s @ [PostMessage channel userid MsgMissingTmdbId]
       \<and> (has_key (api_key p) \<and> read_search_cache w p userid s = (Some cache, s1)
            \<and> 1 \<le> number \<and> number \<le> int (length (sc_results cache))
            \<and> sc_results cache ! nat (number - 1) = selected \<longrightarrow>
            handle_get_resources w p number resource_type channel userid s =
              (p, post_message channel userid MsgMissingTmdbId s1)
          \<and> handle_resource_selection w p number channel userid s =
              (case year_of selected of
                 Inl e \<Rightarrow> (p, post_message channel userid (MsgSelectionError e) s1)
               | Inr year \<Rightarrow>
                   (p, post_message channel userid MsgMissingTmdbId
                         (post_message channel userid
                            (MsgFetchingByPriority
                               (get_default selected (py ''title'') (PStr unknown_title)))
                            s1))))"
  using assms
  by (auto simp: get_resources_by_priority_no_id trace_post_message
        handle_get_resources_def handle_resource_selection_def Let_def split: sum.splits)

lemma no_id_hit_falsy: "\<not> truthy (getv no_id_hit (py ''tmdbid''))"
  by (simp add: no_id_hit_def getv_def)

lemma listed_read:
  "read_search_cache proxy_down_world listed_plugin (py ''u1'') rt0 =
     (Some demo_search_entry, rt0\<lparr>ticks := Suc (ticks rt0)\<rparr>)"
  by (simp add: read_search_cache_def listed_plugin_def time_time_def proxy_down_world_def
        rt0_def demo_search_entry_def)

lemma listed_second_hit:
  "has_key (api_key listed_plugin) \<and> (1::int) \<le> 2
   \<and> (2::int) \<le> int (length (sc_results demo_search_entry))
   \<and> sc_results demo_search_entry ! nat (2 - 1) = no_id_hit"
  by (simp add: listed_plugin_def demo_plugin_def has_key_def demo_search_entry_def)

theorem missing_tmdbid_no_fetch_witness:
  "\<not> truthy (getv no_id_hit (py ''tmdbid''))
   \<and> get_resources_by_priority proxy_down_world demo_plugin no_id_hit (py ''ch'') (py ''u1'') rt0 =
       (demo_plugin, post_message (py ''ch'') (py ''u1'') MsgMissingTmdbId rt0)
   \<and> handle_get_resources proxy_down_world listed_plugin 2 (py ''115'') (py ''ch'') (py ''u1'') rt0 =
       (listed_plugin,
        post_message (py ''ch'') (py ''u1'') MsgMissingTmdbId (rt0\<lparr>ticks := Suc (ticks rt0)\<rparr>))"
proof -
  from missing_tmdbid_no_fetch[OF no_id_hit_falsy]
  have a: "get_resources_by_priority proxy_down_world demo_plugin no_id_hit (py ''ch'') (py ''u1'') rt0 =
       (demo_plugin, post_message (py ''ch'') (py ''u1'') MsgMissingTmdbId rt0)"
    by blast
  from missing_tmdbid_no_fetch[OF no_id_hit_falsy,
         where p = listed_plugin and w = proxy_down_world and userid = "py ''u1''" and s = rt0
           and cache = demo_search_entry and ?s1.0 = "rt0\<lparr>ticks := Suc (ticks rt0)\<rparr>"
           and number = 2 and channel = "py ''ch''" and resource_type = "py ''115''"]
       listed_read listed_second_hit
  have b: "handle_get_resources proxy_down_world listed_plugin 2 (py ''115'') (py ''ch'') (py ''u1'') rt0 =
       (listed_plugin,
        post_message (py ''ch'') (py ''u1'') MsgMissingTmdbId (rt0\<lparr>ticks := Suc (ticks rt0)\<rparr>))"
    by blast
  from no_id_hit_falsy a b show ?thesis by (intro conjI)
qed

subsection \<open>The resource cache holds only items with a URL\<close>

lemma cache_loop_urls:
  "map item_url (cache_loop resource_type xs acc) =
     map item_url acc @ filter truthy (map (resource_url resource_type) xs)"
  by (induction xs arbitrary: acc) (simp_all add: Let_def)

lemma truthy_not_empty: "truthy v \<Longrightarrow> v \<noteq> PStr [] \<and> v \<noteq> PNone"
  by (cases v) auto

lemma cache_loop_all_truthy:
  "list_all (\<lambda>it. truthy (item_url it) \<and> item_url it \<noteq> PStr [] \<and> item_url it \<noteq> PNone)
     (cache_loop resource_type xs [])"
proof -
  have "\<forall>u \<in> set (map item_url (cache_loop resource_type xs [])). truthy u"
    unfolding cache_loop_urls by simp
  thus ?thesis by (auto simp: list_all_iff dest: truthy_not_empty)
qed

lemma cache_loop_length:
  "length (cache_loop resource_type xs []) \<le> length xs"
proof -
  have "length (cache_loop resource_type xs []) =
          length (map item_url (cache_loop resource_type xs []))" by simp
  also have "\<dots> = length (filter truthy (map (resource_url resource_type) xs))"
    unfolding cache_loop_urls by simp
  also have "\<dots> \<le> length xs"
    using length_filter_le[of truthy "map (resource_url resource_type) xs"] by simp
  finally show ?thesis .
qed

lemma format_and_send_entry:
  assumes "resource_list_of rs resource_type \<noteq> []"
  shows "user_resource_cache
           (fst (format_and_send_resources w p rs resource_type title channel userid s)) userid =
         Some \<lparr>rc_resources = cache_loop resource_type (take 10 (resource_list_of rs resource_type)) [],
               rc_title = title, rc_resource_type = resource_type,
               rc_timestamp = clock w (ticks s)\<rparr>"
  using assms by (simp add: format_and_send_resources_def Let_def time_time_def)

lemma format_and_send_other_users:
  "u \<noteq> userid \<Longrightarrow>
   user_resource_cache
     (fst (format_and_send_resources w p rs resource_type title channel userid s)) u =
   user_resource_cache p u"
  by (simp add: format_and_send_resources_def Let_def time_time_def)

lemma format_and_send_empty:
  "resource_list_of rs resource_type = [] \<Longrightarrow>
   fst (format_and_send_resources w p rs resource_type title channel userid s) = p"
  by (simp add: format_and_send_resources_def Let_def)

lemma format_and_send_ok:
  assumes "resource_cache_ok p"
  shows "resource_cache_ok
           (fst (format_and_send_resources w p rs resource_type title channel userid s))"
proof (cases "resource_list_of rs resource_type = []")
  case True
  with assms show ?thesis by (simp add: format_and_send_empty)
next
  case False
  have len: "length (cache_loop resource_type (take 10 (resource_list_of rs resource_type)) []) \<le> 10"
    using cache_loop_length[of resource_type "take 10 (resource_list_of rs resource_type)"] by simp
  show ?thesis
    unfolding resource_cache_ok_def
  proof (intro allI impI)
    fix u e
    assume e: "user_resource_cache
                 (fst (format_and_send_resources w p rs resource_type title channel userid s)) u
               = Some e"
    show "list_all (\<lambda>it. truthy (item_url it) \<and> item_url it \<noteq> PStr [] \<and> item_url it \<noteq> PNone)
            (rc_resources e) \<and> length (rc_resources e) \<le> 10"
    proof (cases "u = userid")
      case True
      with e format_and_send_entry[OF False, of w p title channel userid s]
      have "rc_resources e =
              cache_loop resource_type (take 10 (resource_list_of rs resource_type)) []"
        by auto
      thus ?thesis using cache_loop_all_truthy len by simp
    next
      case False
      with e have "user_resource_cache p u = Some e"
        by (simp add: format_and_send_other_users)
      with assms show ?thesis by (simp add: resource_cache_ok_def)
    qed
  qed
qed

lemma resource_cache_ok_cong:
  "user_resource_cache p' = user_resource_cache p \<Longrightarrow> resource_cache_ok p' = resource_cache_ok p"
  by (simp add: resource_cache_ok_def)

lemma get_resources_by_priority_ok:
  assumes "resource_cache_ok p"
  shows "resource_cache_ok (fst (get_resources_by_priority w p selected channel userid s))"
  using assms
  by (auto simp: get_resources_by_priority_def Let_def format_and_send_ok
           split: prod.splits sum.splits option.splits)

lemma handle_resource_selection_ok:
  assumes "resource_cache_ok p"
  shows "resource_cache_ok (fst (handle_resource_selection w p number channel userid s))"
  using assms
  by (auto simp: handle_resource_selection_def Let_def get_resources_by_priority_ok
           split: prod.splits option.splits sum.splits)

lemma handle_get_resources_ok:
  assumes "resource_cache_ok p"
  shows "resource_cache_ok (fst (handle_get_resources w p number resource_type channel userid s))"
  using assms
  by (auto simp: handle_get_resources_def Let_def format_and_send_ok
           split: prod.splits sum.splits option.splits)

lemma handle_resource_transfer_cache:
  "user_resource_cache (fst (handle_resource_transfer w p resource_id channel userid s)) =
     user_resource_cache p"
  by (simp add: handle_resource_transfer_def Let_def
           split: prod.splits sum.splits option.splits)

lemma search_and_reply_cache:
  "user_resource_cache (fst (search_and_reply w p keyword channel userid s)) =
     user_resource_cache p"
  by (simp add: search_and_reply_def Let_def split: prod.splits option.splits sum.splits)

lemma handle_resource_transfer_ok:
  "resource_cache_ok p \<Longrightarrow>
   resource_cache_ok (fst (handle_resource_transfer w p resource_id channel userid s))"
  using resource_cache_ok_cong[OF handle_resource_transfer_cache] by simp

lemma search_and_reply_ok:
  "resource_cache_ok p \<Longrightarrow>
   resource_cache_ok (fst (search_and_reply w p keyword channel userid s))"
  using resource_cache_ok_cong[OF search_and_reply_cache] by simp

lemma numeric_selection_ok:
  assumes "resource_cache_ok p"
  shows "resource_cache_ok (fst (numeric_selection w p number channel userid s))"
  using assms
  by (simp add: numeric_selection_def handle_resource_selection_ok handle_resource_transfer_ok
           split: prod.splits option.splits)

lemma talk_ok:
  assumes "resource_cache_ok p"
  shows "resource_cache_ok (fst (snd (talk ip w p ev s)))"
  using assms
  by (simp add: talk_def Let_def handle_get_resources_ok numeric_selection_ok search_and_reply_ok
           split: option.splits prod.splits sum.splits)

text \<open>
  C7. The entry that \<open>_format_and_send_resources\<close> writes for a non-empty list holds,
  in order, one item for each of the first ten raw records whose URL field for the
  type is true, with that URL; records whose field is empty or missing give no item.
  So every stored URL is non-empty, and an entry has at most as many items as there
  are raw records and at most ten. No handler writes the resource cache in another
  way: the invariant is kept by every message that \<open>talk\<close> handles, whether \<open>talk\<close>
  returns or raises.
\<close>

theorem resource_cache_urls:
  assumes "resource_cache_ok p"
  shows "resource_cache_ok (fst (snd (talk ip w p ev s)))
       \<and> resource_cache_ok
           (fst (format_and_send_resources w p rs resource_type title channel userid s))
       \<and> (resource_list_of rs resource_type \<noteq> [] \<longrightarrow>
            (\<exists>e. user_resource_cache
                    (fst (format_and_send_resources w p rs resource_type title channel userid s))
                    userid = Some e
                \<and> map item_url (rc_resources e) =
                    filter truthy
                      (map (resource_url resource_type) (take 10 (resource_list_of rs resource_type)))
                \<and> list_all (\<lambda>it. truthy (item_url it) \<and> item_url it \<noteq> PStr []
                                   \<and> item_url it \<noteq> PNone) (rc_resources e)
                \<and> length (rc_resources e) \<le> length (resource_list_of rs resource_type)
                \<and> length (rc_resources e) \<le> 10))"
proof -
  have C: "resource_list_of rs resource_type \<noteq> [] \<longrightarrow>
            (\<exists>e. user_resource_cache
                    (fst (format_and_send_resources w p rs resource_type title channel userid s))
                    userid = Some e
                \<and> map item_url (rc_resources e) =
                    filter truthy
                      (map (resource_url resource_type) (take 10 (resource_list_of rs resource_type)))
                \<and> list_all (\<lambda>it. truthy (item_url it) \<and> item_url it \<noteq> PStr []
                                   \<and> item_url it \<noteq> PNone) (rc_resources e)
                \<and> length (rc_resources e) \<le> length (resource_list_of rs resource_type)
                \<and> length (rc_resources e) \<le> 10)"
  proof
    assume ne: "resource_list_of rs resource_type \<noteq> []"
    let ?raw = "take 10 (resource_list_of rs resource_type)"
    have l1: "length (cache_loop resource_type ?raw []) \<le> length ?raw"
      by (rule cache_loop_length)
    hence l2: "length (cache_loop resource_type ?raw []) \<le> length (resource_list_of rs resource_type)"
      and l3: "length (cache_loop resource_type ?raw []) \<le> 10"
      by simp_all
    show "\<exists>e. user_resource_cache
                    (fst (format_and_send_resources w p rs resource_type title channel userid s))
                    userid = Some e
                \<and> map item_url (rc_resources e) =
                    filter truthy
                      (map (resource_url resource_type) (take 10 (resource_list_of rs resource_type)))
                \<and> list_all (\<lambda>it. truthy (item_url it) \<and> item_url it \<noteq> PStr []
                                   \<and> item_url it \<noteq> PNone) (rc_resources e)
                \<and> length (rc_resources e) \<le> length (resource_list_of rs resource_type)
                \<and> length (rc_resources e) \<le> 10"
      using format_and_send_entry[OF ne, of w p title channel userid s]
            cache_loop_urls[of resource_type ?raw "[]"] cache_loop_all_truthy[of resource_type ?raw]
            l2 l3
      by simp
  qed
  from talk_ok[OF assms] format_and_send_ok[OF assms] C show ?thesis by (intro conjI)
qed

lemma demo_plugin_ok: "resource_cache_ok demo_plugin"
  by (simp add: resource_cache_ok_def demo_plugin_def)

lemma mixed_resources_list:
  "resource_list_of mixed_resources (py ''115'') =
     [empty_link_record, share_record, no_link_record]"
  by (simp add: resource_list_of_def mixed_resources_def)

lemma mixed_resources_urls:
  "filter truthy (map (resource_url (py ''115''))
     (take 10 [empty_link_record, share_record, no_link_record])) =
   [PStr (py ''https://115.com/s/abc'')]"
  by (simp add: resource_url_def get_default_def empty_link_record_def share_record_def
        no_link_record_def)

text \<open>
  Of three raw records, one with a link, one with an empty link and one without the
  field, only the first is stored.
\<close>

theorem resource_cache_urls_witness:
  "resource_cache_ok demo_plugin
   \<and> resource_list_of mixed_resources (py ''115'') \<noteq> []
   \<and> (\<exists>e. user_resource_cache
             (fst (format_and_send_resources proxy_down_world demo_plugin mixed_resources
                     (py ''115'') (PStr (py ''The Matrix'')) (py ''ch'') (py ''u1'') rt0))
             (py ''u1'') = Some e
          \<and> map item_url (rc_resources e) = [PStr (py ''https://115.com/s/abc'')]
          \<and> length (rc_resources e) \<le> 3)"
proof -
  let ?entry = "user_resource_cache
             (fst (format_and_send_resources proxy_down_world demo_plugin mixed_resources
                     (py ''115'') (PStr (py ''The Matrix'')) (py ''ch'') (py ''u1'') rt0))
             (py ''u1'')"
  have ne: "resource_list_of mixed_resources (py ''115'') \<noteq> []"
    unfolding mixed_resources_list by simp
  note t = resource_cache_urls[OF demo_plugin_ok,
         where rs = mixed_resources and resource_type = "py ''115''" and w = proxy_down_world
           and title = "PStr (py ''The Matrix'')" and channel = "py ''ch''"
           and userid = "py ''u1''" and s = rt0]
  from mp[OF t[THEN conjunct2, THEN conjunct2] ne]
  obtain e where all: "?entry = Some e
      \<and> map item_url (rc_resources e) =
           filter truthy (map (resource_url (py ''115''))
             (take 10 (resource_list_of mixed_resources (py ''115''))))
      \<and> list_all (\<lambda>it. truthy (item_url it) \<and> item_url it \<noteq> PStr [] \<and> item_url it \<noteq> PNone)
           (rc_resources e)
      \<and> length (rc_resources e) \<le> length (resource_list_of mixed_resources (py ''115''))
      \<and> length (rc_resources e) \<le> 10" ..
  from all have e: "?entry = Some e" by (rule conjunct1)
  from all have "map item_url (rc_resources e) =
           filter truthy (map (resource_url (py ''115''))
             (take 10 (resource_list_of mixed_resources (py ''115''))))"
    by (rule conjunct1[OF conjunct2])
  hence u: "map item_url (rc_resources e) = [PStr (py ''https://115.com/s/abc'')]"
    unfolding mixed_resources_list mixed_resources_urls .
  from all have "length (rc_resources e) \<le> length (resource_list_of mixed_resources (py ''115''))"
    by (rule conjunct1[OF conjunct2[OF conjunct2[OF conjunct2]]])
  hence l: "length (rc_resources e) \<le> 3"
    unfolding mixed_resources_list by simp
  have "\<exists>e. ?entry = Some e
          \<and> map item_url (rc_resources e) = [PStr (py ''https://115.com/s/abc'')]
          \<and> length (rc_resources e) \<le> 3"
    by (rule exI[of _ e]) (intro conjI e u l)
  with demo_plugin_ok ne show ?thesis by (intro conjI)
qed

subsection \<open>Expiry of the cache entries\<close>

lemma read_search_cache_young:
  "user_search_cache p userid = Some e \<Longrightarrow> \<not> clock w (ticks s) - sc_timestamp e > 3600 \<Longrightarrow>
   read_search_cache w p userid s = (Some e, s\<lparr>ticks := Suc (ticks s)\<rparr>)"
  by (simp add: read_search_cache_def time_time_def)

lemma read_search_cache_old:
  "user_search_cache p userid = Some e \<Longrightarrow> clock w (ticks s) - sc_timestamp e > 3600 \<Longrightarrow>
   read_search_cache w p userid s = (None, s\<lparr>ticks := Suc (ticks s)\<rparr>)"
  by (simp add: read_search_cache_def time_time_def)

lemma read_resource_cache_young:
  "user_resource_cache p userid = Some e \<Longrightarrow> \<not> clock w (ticks s) - rc_timestamp e > 3600 \<Longrightarrow>
   read_resource_cache w p userid s = (Some e, s\<lparr>ticks := Suc (ticks s)\<rparr>)"
  by (simp add: read_resource_cache_def time_time_def)

lemma read_resource_cache_old:
  "user_resource_cache p userid = Some e \<Longrightarrow> clock w (ticks s) - rc_timestamp e > 3600 \<Longrightarrow>
   read_resource_cache w p userid s = (None, s\<lparr>ticks := Suc (ticks s)\<rparr>)"
  by (simp add: read_resource_cache_def time_time_def)


lemma live_resource_cache_old:
  "user_resource_cache p userid = Some e \<Longrightarrow> \<not> clock w (ticks s) - rc_timestamp e < 3600 \<Longrightarrow>
   live_resource_cache w p userid s = (None, s\<lparr>ticks := Suc (ticks s)\<rparr>)"
  by (simp add: live_resource_cache_def time_time_def)

lemma search_entry_ttl:
  assumes "user_search_cache p userid = Some e"
  shows "(clock w (ticks s) - sc_timestamp e < 3600 \<longrightarrow>
            fst (read_search_cache w p userid s) = Some e)
       \<and> (clock w (ticks s) - sc_timestamp e > 3600 \<longrightarrow>
            fst (read_search_cache w p userid s) = None)
       \<and> (clock w (ticks s) = sc_timestamp e + 3599 \<longrightarrow>
            fst (read_search_cache w p userid s) = Some e)
       \<and> (clock w (ticks s) = sc_timestamp e + 3601 \<longrightarrow>
            fst (read_search_cache w p userid s) = None)
       \<and> (clock w (ticks s) - sc_timestamp e > 3600 \<longrightarrow>
            handle_resource_selection w p number channel userid s =
              (p, post_message channel userid MsgSearchExpired (s\<lparr>ticks := Suc (ticks s)\<rparr>))
            \<and> (has_key (api_key p) \<longrightarrow>
                 handle_get_resources w p number resource_type channel userid s =
                   (p, post_message channel userid MsgSearchExpired
                         (s\<lparr>ticks := Suc (ticks s)\<rparr>))))"
  using assms
  by (simp add: read_search_cache_def time_time_def handle_resource_selection_def
        handle_get_resources_def)

lemma resource_entry_ttl:
  assumes "user_resource_cache p userid = Some e"
  shows "(clock w (ticks s) - rc_timestamp e < 3600 \<longrightarrow>
            fst (read_resource_cache w p userid s) = Some e
            \<and> fst (live_resource_cache w p userid s) = Some e)
       \<and> (clock w (ticks s) - rc_timestamp e > 3600 \<longrightarrow>
            fst (read_resource_cache w p userid s) = None
            \<and> fst (live_resource_cache w p userid s) = None)
       \<and> (clock w (ticks s) = rc_timestamp e + 3599 \<longrightarrow>
            fst (read_resource_cache w p userid s) = Some e
            \<and> fst (live_resource_cache w p userid s) = Some e)
       \<and> (clock w (ticks s) = rc_timestamp e + 3601 \<longrightarrow>
            fst (read_resource_cache w p userid s) = None
            \<and> fst (live_resource_cache w p userid s) = None)
       \<and> (clock w (ticks s) - rc_timestamp e > 3600 \<and> cms_enabled p \<and> cms_client p \<noteq> None \<longrightarrow>
            handle_resource_transfer w p number channel userid s =
              (p, post_message channel userid MsgResourceExpired (s\<lparr>ticks := Suc (ticks s)\<rparr>))
            \<and> numeric_selection w p number channel userid s =
                handle_resource_selection w p number channel userid (s\<lparr>ticks := Suc (ticks s)\<rparr>))"
  using assms
  by (auto simp: read_resource_cache_def live_resource_cache_def time_time_def
        handle_resource_transfer_def numeric_selection_def)

lemma search_and_reply_entry:
  assumes "client p = Some cl" and "search w cl keyword 1 s = (Some found_items, s1)"
    and "found_items \<noteq> []"
  shows "user_search_cache (fst (search_and_reply w p keyword channel userid s)) userid =
           Some \<lparr>sc_results = take 10 found_items, sc_keyword = keyword,
                 sc_timestamp = clock w (ticks s1)\<rparr>"
  using assms by (simp add: search_and_reply_def Let_def time_time_def split: sum.splits)

text \<open>
  C2. An entry of either cache carries the clock reading of its writing. Every read
  of the search cache (\<open>handle_resource_selection\<close>, \<open>handle_get_resources\<close>) and of
  the resource cache (\<open>talk\<close>, \<open>handle_resource_transfer\<close>) compares the age of the
  entry with 3600 seconds: an entry younger than that is returned, an entry older than
  that is treated as absent (the handlers answer that it has expired, and \<open>talk\<close>
  does not take the number for a transfer). In particular a read 3599 seconds after
  the writing returns the entry and a read 3601 seconds after it does not.
\<close>

theorem cache_ttl:
  "(user_search_cache p userid = Some e \<longrightarrow>
        (clock w (ticks s) - sc_timestamp e < 3600 \<longrightarrow>
            fst (read_search_cache w p userid s) = Some e)
       \<and> (clock w (ticks s) - sc_timestamp e > 3600 \<longrightarrow>
            fst (read_search_cache w p userid s) = None)
       \<and> (clock w (ticks s) = sc_timestamp e + 3599 \<longrightarrow>
            fst (read_search_cache w p userid s) = Some e)
       \<and> (clock w (ticks s) = sc_timestamp e + 3601 \<longrightarrow>
            fst (read_search_cache w p userid s) = None)
       \<and> (clock w (ticks s) - sc_timestamp e > 3600 \<longrightarrow>
            handle_resource_selection w p number channel userid s =
              (p, post_message channel userid MsgSearchExpired (s\<lparr>ticks := Suc (ticks s)\<rparr>))
            \<and> (has_key (api_key p) \<longrightarrow>
                 handle_get_resources w p number resource_type channel userid s =
                   (p, post_message channel userid MsgSearchExpired
                         (s\<lparr>ticks := Suc (ticks s)\<rparr>)))))
   \<and> (user_resource_cache p userid = Some r \<longrightarrow>
         (clock w (ticks s) - rc_timestamp r < 3600 \<longrightarrow>
            fst (read_resource_cache w p userid s) = Some r
            \<and> fst (live_resource_cache w p userid s) = Some r)
       \<and> (clock w (ticks s) - rc_timestamp r > 3600 \<longrightarrow>
            fst (read_resource_cache w p userid s) = None
            \<and> fst (live_resource_cache w p userid s) = None)
       \<and> (clock w (ticks s) = rc_timestamp r + 3599 \<longrightarrow>
            fst (read_resource_cache w p userid s) = Some r
            \<and> fst (live_resource_cache w p userid s) = Some r)
       \<and> (clock w (ticks s) = rc_timestamp r + 3601 \<longrightarrow>
            fst (read_resource_cache w p userid s) = None
            \<and> fst (live_resource_cache w p userid s) = None)
       \<and> (clock w (ticks s) - rc_timestamp r > 3600 \<and> cms_enabled p \<and> cms_client p \<noteq> None \<longrightarrow>
            handle_resource_transfer w p number channel userid s =
              (p, post_message channel userid MsgResourceExpired (s\<lparr>ticks := Suc (ticks s)\<rparr>))
            \<and> numeric_selection w p number channel userid s =
                handle_resource_selection w p number channel userid (s\<lparr>ticks := Suc (ticks s)\<rparr>)))
   \<and> (resource_list_of rs resource_type \<noteq> [] \<longrightarrow>
         (\<exists>x. user_resource_cache
                 (fst (format_and_send_resources w p rs resource_type title channel userid s))
                 userid = Some x
              \<and> rc_timestamp x = clock w (ticks s)))
   \<and> (client p = Some cl \<and> search w cl keyword 1 s = (Some found_items, s1)
          \<and> found_items \<noteq> [] \<longrightarrow>
         (\<exists>x. user_search_cache (fst (search_and_reply w p keyword channel userid s)) userid
                 = Some x
              \<and> sc_timestamp x = clock w (ticks s1)))"
proof -
  have A: "user_search_cache p userid = Some e \<longrightarrow>
        (clock w (ticks s) - sc_timestamp e < 3600 \<longrightarrow>
            fst (read_search_cache w p userid s) = Some e)
       \<and> (clock w (ticks s) - sc_timestamp e > 3600 \<longrightarrow>
            fst (read_search_cache w p userid s) = None)
       \<and> (clock w (ticks s) = sc_timestamp e + 3599 \<longrightarrow>
            fst (read_search_cache w p userid s) = Some e)
       \<and> (clock w (ticks s) = sc_timestamp e + 3601 \<longrightarrow>
            fst (read_search_cache w p userid s) = None)
       \<and> (clock w (ticks s) - sc_timestamp e > 3600 \<longrightarrow>
            handle_resource_selection w p number channel userid s =
              (p, post_message channel userid MsgSearchExpired (s\<lparr>ticks := Suc (ticks s)\<rparr>))
            \<and> (has_key (api_key p) \<longrightarrow>
                 handle_get_resources w p number resource_type channel userid s =
                   (p, post_message channel userid MsgSearchExpired
                         (s\<lparr>ticks := Suc (ticks s)\<rparr>))))"
    by (rule impI) (rule search_entry_ttl)
  have B: "user_resource_cache p userid = Some r \<longrightarrow>
         (clock w (ticks s) - rc_timestamp r < 3600 \<longrightarrow>
            fst (read_resource_cache w p userid s) = Some r
            \<and> fst (live_resource_cache w p userid s) = Some r)
       \<and> (clock w (ticks s) - rc_timestamp r > 3600 \<longrightarrow>
            fst (read_resource_cache w p userid s) = None
            \<and> fst (live_resource_cache w p userid s) = None)
       \<and> (clock w (ticks s) = rc_timestamp r + 3599 \<longrightarrow>
            fst (read_resource_cache w p userid s) = Some r
            \<and> fst (live_resource_cache w p userid s) = Some r)
       \<and> (clock w (ticks s) = rc_timestamp r + 3601 \<longrightarrow>
            fst (read_resource_cache w p userid s) = None
            \<and> fst (live_resource_cache w p userid s) = None)
       \<and> (clock w (ticks s) - rc_timestamp r > 3600 \<and> cms_enabled p \<and> cms_client p \<noteq> None \<longrightarrow>
            handle_resource_transfer w p number channel userid s =
              (p, post_message channel userid MsgResourceExpired (s\<lparr>ticks := Suc (ticks s)\<rparr>))
            \<and> numeric_selection w p number channel userid s =
                handle_resource_selection w p number channel userid (s\<lparr>ticks := Suc (ticks s)\<rparr>))"
    by (rule impI) (rule resource_entry_ttl)
  have C: "resource_list_of rs resource_type \<noteq> [] \<longrightarrow>
         (\<exists>x. user_resource_cache
                 (fst (format_and_send_resources w p rs resource_type title channel userid s))
                 userid = Some x
              \<and> rc_timestamp x = clock w (ticks s))"
    by (simp add: format_and_send_entry)
  have D: "client p = Some cl \<and> search w cl keyword 1 s = (Some found_items, s1)
          \<and> found_items \<noteq> [] \<longrightarrow>
         (\<exists>x. user_search_cache (fst (search_and_reply w p keyword channel userid s)) userid
                 = Some x
              \<and> sc_timestamp x = clock w (ticks s1))"
    by (simp add: search_and_reply_entry)
  from A B C D show ?thesis by (intro conjI)
qed

lemma cached_entries:
  "user_search_cache cached_plugin (py ''u1'') = Some demo_search_entry"
  "user_resource_cache cached_plugin (py ''u1'') = Some demo_resource_entry"
  by (simp_all add: cached_plugin_def demo_plugin_def)

lemma cached_times:
  "clock (clock_world 4599) (ticks rt0) = sc_timestamp demo_search_entry + 3599"
  "clock (clock_world 4601) (ticks rt0) = sc_timestamp demo_search_entry + 3601"
  "clock (clock_world 4599) (ticks rt0) = rc_timestamp demo_resource_entry + 3599"
  "clock (clock_world 4601) (ticks rt0) = rc_timestamp demo_resource_entry + 3601"
  by (simp_all add: clock_world_def demo_search_entry_def demo_resource_entry_def)

text \<open>
  The entries written at time 1000 are returned by the reads at time 4599 and are
  absent for the reads at time 4601.
\<close>

theorem cache_ttl_witness:
  "user_search_cache cached_plugin (py ''u1'') = Some demo_search_entry
   \<and> user_resource_cache cached_plugin (py ''u1'') = Some demo_resource_entry
   \<and> fst (read_search_cache (clock_world 4599) cached_plugin (py ''u1'') rt0)
       = Some demo_search_entry
   \<and> fst (read_search_cache (clock_world 4601) cached_plugin (py ''u1'') rt0) = None
   \<and> fst (read_resource_cache (clock_world 4599) cached_plugin (py ''u1'') rt0)
       = Some demo_resource_entry
   \<and> fst (live_resource_cache (clock_world 4599) cached_plugin (py ''u1'') rt0)
       = Some demo_resource_entry
   \<and> fst (read_resource_cache (clock_world 4601) cached_plugin (py ''u1'') rt0) = None
   \<and> fst (live_resource_cache (clock_world 4601) cached_plugin (py ''u1'') rt0) = None"
proof -
  note young = cache_ttl[where p = cached_plugin and userid = "py ''u1''"
      and e = demo_search_entry and r = demo_resource_entry and w = "clock_world 4599"
      and s = rt0]
  note old = cache_ttl[where p = cached_plugin and userid = "py ''u1''"
      and e = demo_search_entry and r = demo_resource_entry and w = "clock_world 4601"
      and s = rt0]
  note sy = mp[OF young[THEN conjunct1] cached_entries(1)]
  note so = mp[OF old[THEN conjunct1] cached_entries(1)]
  note ry = mp[OF young[THEN conjunct2, THEN conjunct1] cached_entries(2)]
  note ro = mp[OF old[THEN conjunct2, THEN conjunct1] cached_entries(2)]
  have a: "fst (read_search_cache (clock_world 4599) cached_plugin (py ''u1'') rt0)
             = Some demo_search_entry"
    using mp[OF sy[THEN conjunct2, THEN conjunct2, THEN conjunct1] cached_times(1)] .
  have b: "fst (read_search_cache (clock_world 4601) cached_plugin (py ''u1'') rt0) = None"
    using mp[OF so[THEN conjunct2, THEN conjunct2, THEN conjunct2, THEN conjunct1]
             cached_times(2)] .
  note c = mp[OF ry[THEN conjunct2, THEN conjunct2, THEN conjunct1] cached_times(3)]
  note d = mp[OF ro[THEN conjunct2, THEN conjunct2, THEN conjunct2, THEN conjunct1]
              cached_times(4)]
  from cached_entries a b c[THEN conjunct1] c[THEN conjunct2] d[THEN conjunct1]
       d[THEN conjunct2]
  show ?thesis by (intro conjI)
qed

subsection \<open>The numeric branch of the dispatcher\<close>




















subsection \<open>The lookup by priority\<close>

lemma fetch_resources_client:
  "client p = Some cl \<Longrightarrow> \<exists>r s1. fetch_resources w p media_type tmdbid t s = (Inr r, s1)"
  by (simp add: fetch_resources_def split: prod.splits)

lemma priority_loop_spec:
  assumes cl: "client p = Some cl"
  shows "priority_loop w p selected m tid ts s = (res, s') \<Longrightarrow>
    (\<exists>misses t rest miss_results s_mid rs.
        filter (candidate p selected) ts = misses @ t # rest
      \<and> fetch_all w p m tid misses s = (miss_results, s_mid)
      \<and> list_all2 (\<lambda>t r. \<not> found_result r t) misses miss_results
      \<and> fetch_resources w p m tid t s_mid = (Inr (Some rs), s')
      \<and> found (Some rs) t
      \<and> res = Inr (Some (t, rs)))
    \<or> (\<exists>results.
        fetch_all w p m tid (filter (candidate p selected) ts) s = (results, s')
      \<and> list_all2 (\<lambda>t r. \<not> found_result r t) (filter (candidate p selected) ts) results
      \<and> res = Inr None)"
proof (induction ts arbitrary: s)
  case Nil
  thus ?case by simp
next
  case (Cons t ts)
  show ?case
  proof (cases "candidate p selected t")
    case False
    hence "priority_loop w p selected m tid (t # ts) s = priority_loop w p selected m tid ts s"
      by (auto simp: candidate_def)
    with Cons.prems have "priority_loop w p selected m tid ts s = (res, s')" by simp
    from Cons.IH[OF this] False show ?thesis by simp
  next
    case True
    from fetch_resources_client[OF cl] obtain r s1
      where f: "fetch_resources w p m tid t s = (Inr r, s1)" by blast
    show ?thesis
    proof (cases "found r t")
      case fnd: True
      then obtain rs where rs: "r = Some rs" by (cases r) (auto simp: found_def)
      from True f fnd rs Cons.prems have res: "res = Inr (Some (t, rs))" and s': "s' = s1"
        by (auto simp: candidate_def)
      have "filter (candidate p selected) (t # ts) = [] @ t # filter (candidate p selected) ts"
        using True by simp
      moreover have "fetch_all w p m tid [] s = ([], s)" by simp
      moreover have "list_all2 (\<lambda>t r. \<not> found_result r t) [] []" by simp
      moreover have "fetch_resources w p m tid t s = (Inr (Some rs), s')" using f rs s' by simp
      moreover have "found (Some rs) t" using fnd rs by simp
      ultimately show ?thesis using res by blast
    next
      case nf: False
      from True f nf Cons.prems have rec: "priority_loop w p selected m tid ts s1 = (res, s')"
        by (cases r) (auto simp: candidate_def)
      have nfr: "\<not> found_result (Inr r) t" using nf by (simp add: found_result_def)
      from Cons.IH[OF rec] show ?thesis
      proof
        assume "\<exists>misses t' rest miss_results s_mid rs.
            filter (candidate p selected) ts = misses @ t' # rest
          \<and> fetch_all w p m tid misses s1 = (miss_results, s_mid)
          \<and> list_all2 (\<lambda>t r. \<not> found_result r t) misses miss_results
          \<and> fetch_resources w p m tid t' s_mid = (Inr (Some rs), s')
          \<and> found (Some rs) t'
          \<and> res = Inr (Some (t', rs))"
        then obtain misses t' rest miss_results s_mid rs where
            a: "filter (candidate p selected) ts = misses @ t' # rest"
          and b: "fetch_all w p m tid misses s1 = (miss_results, s_mid)"
          and c: "list_all2 (\<lambda>t r. \<not> found_result r t) misses miss_results"
          and d: "fetch_resources w p m tid t' s_mid = (Inr (Some rs), s')"
          and e: "found (Some rs) t'"
          and g: "res = Inr (Some (t', rs))"
          by blast
        have a': "filter (candidate p selected) (t # ts) = (t # misses) @ t' # rest"
          using True a by simp
        have b': "fetch_all w p m tid (t # misses) s = (Inr r # miss_results, s_mid)"
          using f b by simp
        have c': "list_all2 (\<lambda>t r. \<not> found_result r t) (t # misses) (Inr r # miss_results)"
          using c nfr by simp
        from a' b' c' d e g show ?thesis by blast
      next
        assume "\<exists>results.
            fetch_all w p m tid (filter (candidate p selected) ts) s1 = (results, s')
          \<and> list_all2 (\<lambda>t r. \<not> found_result r t) (filter (candidate p selected) ts) results
          \<and> res = Inr None"
        then obtain results where
            a: "fetch_all w p m tid (filter (candidate p selected) ts) s1 = (results, s')"
          and b: "list_all2 (\<lambda>t r. \<not> found_result r t) (filter (candidate p selected) ts) results"
          and c: "res = Inr None"
          by blast
        have a': "fetch_all w p m tid (filter (candidate p selected) (t # ts)) s
                    = (Inr r # results, s')"
          using True f a by simp
        have b': "list_all2 (\<lambda>t r. \<not> found_result r t)
                    (filter (candidate p selected) (t # ts)) (Inr r # results)"
          using True b nfr by simp
        from a' b' c show ?thesis by blast
      qed
    qed
  qed
qed

lemma format_and_send_trace:
  "\<exists>m. trace (snd (format_and_send_resources w p rs resource_type title channel userid s)) =
         trace s @ [PostMessage channel userid m]"
  by (simp add: format_and_send_resources_def Let_def time_time_def trace_post_message
           split: prod.splits)

text \<open>
  C1, as the code has it. Let the hit have a TMDB id and the plugin a client. The
  candidates are the types of the configured priority order, in that order, whose
  flag is set in the hit and which are enabled. Either the lookup stops at a
  candidate: the candidates before it were looked up one after the other and none
  gave a non-empty list, its own lookup gave one, and it is announced and formatted
  without any further lookup. Or every candidate was looked up in order, none gave a
  non-empty list, and the notice is followed by the fallback search of the hit's
  title. A lookup is \<open>get_movie_resources\<close> for a movie, \<open>get_tv_resources\<close> for a
  series, and no call at all for another media type.
\<close>

theorem priority_walk:
  assumes "truthy (getv selected (py ''tmdbid''))" and "client p = Some cl"
    and "title = get_default selected (py ''title'') (PStr unknown_title)"
    and "media_type = get_default selected (py ''media_type'') (PStr (py ''unknown''))"
    and "tmdbid = getv selected (py ''tmdbid'')"
    and "candidates = filter (candidate p selected) (resource_priority p)"
  shows "((\<exists>misses t rest miss_results s_mid rs s1.
             candidates = misses @ t # rest
           \<and> fetch_all w p media_type tmdbid misses s = (miss_results, s_mid)
           \<and> list_all2 (\<lambda>t r. \<not> found_result r t) misses miss_results
           \<and> fetch_resources w p media_type tmdbid t s_mid = (Inr (Some rs), s1)
           \<and> found (Some rs) t
           \<and> get_resources_by_priority w p selected channel userid s =
               format_and_send_resources w p rs t title channel userid
                 (post_message channel userid (MsgFetched title t) s1)
           \<and> (\<exists>m. trace (snd (get_resources_by_priority w p selected channel userid s)) =
                    trace s1 @ [PostMessage channel userid (MsgFetched title t),
                                PostMessage channel userid m]))
        \<or> (\<exists>results s1.
             fetch_all w p media_type tmdbid candidates s = (results, s1)
           \<and> list_all2 (\<lambda>t r. \<not> found_result r t) candidates results
           \<and> get_resources_by_priority w p selected channel userid s =
               (p, fallback_to_moviepilot_search title channel userid
                     (post_message channel userid (MsgSwitchSearchAll title) s1))
           \<and> trace (snd (get_resources_by_priority w p selected channel userid s)) =
               trace s1 @ [PostMessage channel userid (MsgSwitchSearchAll title),
                           FallbackSearch title channel userid]))
       \<and> (media_type = PStr (py ''movie'') \<longrightarrow>
            fetch_resources w p media_type tmdbid t0 s0 =
              (Inr (fst (get_movie_resources w cl tmdbid t0 s0)),
               snd (get_movie_resources w cl tmdbid t0 s0)))
       \<and> (media_type = PStr (py ''tv'') \<longrightarrow>
            fetch_resources w p media_type tmdbid t0 s0 =
              (Inr (fst (get_tv_resources w cl tmdbid t0 s0)),
               snd (get_tv_resources w cl tmdbid t0 s0)))
       \<and> (media_type \<noteq> PStr (py ''movie'') \<and> media_type \<noteq> PStr (py ''tv'') \<longrightarrow>
            fetch_resources w p media_type tmdbid t0 s0 = (Inr None, s0))"
proof -
  obtain res s' where loop:
    "priority_loop w p selected media_type tmdbid (resource_priority p) s = (res, s')"
    by (cases "priority_loop w p selected media_type tmdbid (resource_priority p) s") auto
  have unfold: "get_resources_by_priority w p selected channel userid s =
      (case res of
         Inl e \<Rightarrow> (p, post_message channel userid (MsgPriorityError e) s')
       | Inr (Some (priority_type, rs)) \<Rightarrow>
           format_and_send_resources w p rs priority_type title channel userid
             (post_message channel userid (MsgFetched title priority_type) s')
       | Inr None \<Rightarrow>
           (p, fallback_to_moviepilot_search title channel userid
                 (post_message channel userid (MsgSwitchSearchAll title) s')))"
    using assms(1) loop
    by (simp add: get_resources_by_priority_def Let_def assms(3,4,5)
             split: sum.splits option.splits prod.splits)
  have A: "(\<exists>misses t rest miss_results s_mid rs s1.
             candidates = misses @ t # rest
           \<and> fetch_all w p media_type tmdbid misses s = (miss_results, s_mid)
           \<and> list_all2 (\<lambda>t r. \<not> found_result r t) misses miss_results
           \<and> fetch_resources w p media_type tmdbid t s_mid = (Inr (Some rs), s1)
           \<and> found (Some rs) t
           \<and> get_resources_by_priority w p selected channel userid s =
               format_and_send_resources w p rs t title channel userid
                 (post_message channel userid (MsgFetched title t) s1)
           \<and> (\<exists>m. trace (snd (get_resources_by_priority w p selected channel userid s)) =
                    trace s1 @ [PostMessage channel userid (MsgFetched title t),
                                PostMessage channel userid m]))
        \<or> (\<exists>results s1.
             fetch_all w p media_type tmdbid candidates s = (results, s1)
           \<and> list_all2 (\<lambda>t r. \<not> found_result r t) candidates results
           \<and> get_resources_by_priority w p selected channel userid s =
               (p, fallback_to_moviepilot_search title channel userid
                     (post_message channel userid (MsgSwitchSearchAll title) s1))
           \<and> trace (snd (get_resources_by_priority w p selected channel userid s)) =
               trace s1 @ [PostMessage channel userid (MsgSwitchSearchAll title),
                           FallbackSearch title channel userid])"
    using priority_loop_spec[OF assms(2) loop]
  proof
    assume "\<exists>misses t rest miss_results s_mid rs.
        filter (candidate p selected) (resource_priority p) = misses @ t # rest
      \<and> fetch_all w p media_type tmdbid misses s = (miss_results, s_mid)
      \<and> list_all2 (\<lambda>t r. \<not> found_result r t) misses miss_results
      \<and> fetch_resources w p media_type tmdbid t s_mid = (Inr (Some rs), s')
      \<and> found (Some rs) t
      \<and> res = Inr (Some (t, rs))"
    then obtain misses t rest miss_results s_mid rs where
        a: "candidates = misses @ t # rest"
      and b: "fetch_all w p media_type tmdbid misses s = (miss_results, s_mid)"
      and c: "list_all2 (\<lambda>t r. \<not> found_result r t) misses miss_results"
      and d: "fetch_resources w p media_type tmdbid t s_mid = (Inr (Some rs), s')"
      and e: "found (Some rs) t"
      and g: "res = Inr (Some (t, rs))"
      unfolding assms(6) by blast
    have h: "get_resources_by_priority w p selected channel userid s =
               format_and_send_resources w p rs t title channel userid
                 (post_message channel userid (MsgFetched title t) s')"
      unfolding unfold g by simp
    from format_and_send_trace[of w p rs t title channel userid
           "post_message channel userid (MsgFetched title t) s'"]
    have i: "\<exists>m. trace (snd (get_resources_by_priority w p selected channel userid s)) =
                    trace s' @ [PostMessage channel userid (MsgFetched title t),
                                PostMessage channel userid m]"
      unfolding h trace_post_message by simp
    from a b c d e h i show ?thesis by blast
  next
    assume "\<exists>results.
        fetch_all w p media_type tmdbid (filter (candidate p selected) (resource_priority p)) s
          = (results, s')
      \<and> list_all2 (\<lambda>t r. \<not> found_result r t)
          (filter (candidate p selected) (resource_priority p)) results
      \<and> res = Inr None"
    then obtain results where
        a: "fetch_all w p media_type tmdbid candidates s = (results, s')"
      and b: "list_all2 (\<lambda>t r. \<not> found_result r t) candidates results"
      and c: "res = Inr None"
      unfolding assms(6) by blast
    have h: "get_resources_by_priority w p selected channel userid s =
               (p, fallback_to_moviepilot_search title channel userid
                     (post_message channel userid (MsgSwitchSearchAll title) s'))"
      unfolding unfold c by simp
    have i: "trace (snd (get_resources_by_priority w p selected channel userid s)) =
               trace s' @ [PostMessage channel userid (MsgSwitchSearchAll title),
                           FallbackSearch title channel userid]"
      unfolding h by (simp add: fallback_to_moviepilot_search_def emit_def trace_post_message)
    from a b h i show ?thesis by blast
  qed
  have B: "media_type = PStr (py ''movie'') \<longrightarrow>
            fetch_resources w p media_type tmdbid t0 s0 =
              (Inr (fst (get_movie_resources w cl tmdbid t0 s0)),
               snd (get_movie_resources w cl tmdbid t0 s0))"
    using assms(2) by (simp add: fetch_resources_def split: prod.splits)
  have C: "media_type = PStr (py ''tv'') \<longrightarrow>
            fetch_resources w p media_type tmdbid t0 s0 =
              (Inr (fst (get_tv_resources w cl tmdbid t0 s0)),
               snd (get_tv_resources w cl tmdbid t0 s0))"
    using assms(2) by (simp add: fetch_resources_def split: prod.splits)
  have D: "media_type \<noteq> PStr (py ''movie'') \<and> media_type \<noteq> PStr (py ''tv'') \<longrightarrow>
            fetch_resources w p media_type tmdbid t0 s0 = (Inr None, s0)"
    by (simp add: fetch_resources_def)
  from A B C D show ?thesis by (intro conjI)
qed

lemma matrix_hit_facts:
  "truthy (getv matrix_hit (py ''tmdbid''))"
  "PStr (py ''The Matrix'') = get_default matrix_hit (py ''title'') (PStr unknown_title)"
  "PStr (py ''movie'') = get_default matrix_hit (py ''media_type'') (PStr (py ''unknown''))"
  "PInt 603 = getv matrix_hit (py ''tmdbid'')"
  by (simp_all add: getv_def get_default_def matrix_hit_def)

lemma demo_plugin_candidates:
  "[py ''magnet'', py ''115'', py ''video''] =
     filter (candidate demo_plugin matrix_hit) (resource_priority demo_plugin)"
  by (simp add: candidate_def type_enabled_def getv_def matrix_hit_def demo_plugin_def)

lemma demo_plugin_client: "client demo_plugin = Some demo_api_client"
  by (simp add: demo_plugin_def)

lemma matrix_walk_trace:
  "snd (get_resources_by_priority catalog_world demo_plugin matrix_hit (py ''ch'') (py ''u1'') rt0) =
     \<lparr>trace =
        [ApiGet (proxied_request (MovieEP (PInt 603) (py ''magnet'')) (py ''app'') (Some (py ''key''))),
         ApiGet (proxied_request (MovieEP (PInt 603) (py ''115'')) (py ''app'') (Some (py ''key''))),
         PostMessage (py ''ch'') (py ''u1'') (MsgFetched (PStr (py ''The Matrix'')) (py ''115'')),
         PostMessage (py ''ch'') (py ''u1'')
           (MsgResources (PStr (py ''The Matrix'')) (py ''115'') [share_record] 1 False)],
      ticks = 1\<rparr>"
  by (simp add: get_resources_by_priority_def Let_def getv_def get_default_def matrix_hit_def
        demo_plugin_def type_enabled_def fetch_resources_def get_movie_resources_def
        get_resources_def has_key_def demo_api_client_def request_with_fallback_def
        make_request_def catalog_world_def found_def resource_list_of_def demo_resources_def
        format_and_send_resources_def time_time_def post_message_def emit_def rt0_def
        proxied_request_def)

text \<open>
  The hit with the flags 115, magnet and video set and ed2k cleared, under the order
  magnet, 115, ed2k, video: the candidates are magnet, 115, video; magnet is looked
  up first and has nothing, 115 is looked up next and is found, and neither ed2k nor
  video is looked up.
\<close>

theorem priority_walk_witness:
  "truthy (getv matrix_hit (py ''tmdbid'')) \<and> client demo_plugin = Some demo_api_client
   \<and> ((\<exists>misses t rest miss_results s_mid rs s1.
             [py ''magnet'', py ''115'', py ''video''] = misses @ t # rest
           \<and> fetch_all catalog_world demo_plugin (PStr (py ''movie'')) (PInt 603) misses rt0
                = (miss_results, s_mid)
           \<and> list_all2 (\<lambda>t r. \<not> found_result r t) misses miss_results
           \<and> fetch_resources catalog_world demo_plugin (PStr (py ''movie'')) (PInt 603) t s_mid
                = (Inr (Some rs), s1)
           \<and> found (Some rs) t
           \<and> get_resources_by_priority catalog_world demo_plugin matrix_hit (py ''ch'') (py ''u1'') rt0 =
               format_and_send_resources catalog_world demo_plugin rs t (PStr (py ''The Matrix''))
                 (py ''ch'') (py ''u1'')
                 (post_message (py ''ch'') (py ''u1'') (MsgFetched (PStr (py ''The Matrix'')) t) s1)
           \<and> (\<exists>m. trace (snd (get_resources_by_priority catalog_world demo_plugin matrix_hit
                                 (py ''ch'') (py ''u1'') rt0)) =
                    trace s1 @ [PostMessage (py ''ch'') (py ''u1'')
                                  (MsgFetched (PStr (py ''The Matrix'')) t),
                                PostMessage (py ''ch'') (py ''u1'') m]))
        \<or> (\<exists>results s1.
             fetch_all catalog_world demo_plugin (PStr (py ''movie'')) (PInt 603)
               [py ''magnet'', py ''115'', py ''video''] rt0 = (results, s1)
           \<and> list_all2 (\<lambda>t r. \<not> found_result r t) [py ''magnet'', py ''115'', py ''video''] results
           \<and> get_resources_by_priority catalog_world demo_plugin matrix_hit (py ''ch'') (py ''u1'') rt0 =
               (demo_plugin,
                fallback_to_moviepilot_search (PStr (py ''The Matrix'')) (py ''ch'') (py ''u1'')
                  (post_message (py ''ch'') (py ''u1'')
                     (MsgSwitchSearchAll (PStr (py ''The Matrix''))) s1))
           \<and> trace (snd (get_resources_by_priority catalog_world demo_plugin matrix_hit
                            (py ''ch'') (py ''u1'') rt0)) =
               trace s1 @ [PostMessage (py ''ch'') (py ''u1'')
                             (MsgSwitchSearchAll (PStr (py ''The Matrix''))),
                           FallbackSearch (PStr (py ''The Matrix'')) (py ''ch'') (py ''u1'')]))
   \<and> snd (get_resources_by_priority catalog_world demo_plugin matrix_hit (py ''ch'') (py ''u1'') rt0) =
     \<lparr>trace =
        [ApiGet (proxied_request (MovieEP (PInt 603) (py ''magnet'')) (py ''app'') (Some (py ''key''))),
         ApiGet (proxied_request (MovieEP (PInt 603) (py ''115'')) (py ''app'') (Some (py ''key''))),
         PostMessage (py ''ch'') (py ''u1'') (MsgFetched (PStr (py ''The Matrix'')) (py ''115'')),
         PostMessage (py ''ch'') (py ''u1'')
           (MsgResources (PStr (py ''The Matrix'')) (py ''115'') [share_record] 1 False)],
      ticks = 1\<rparr>"
proof -
  note t = priority_walk[OF matrix_hit_facts(1) demo_plugin_client matrix_hit_facts(2,3,4)
             demo_plugin_candidates,
             where w = catalog_world and channel = "py ''ch''" and userid = "py ''u1''"
               and s = rt0]
  from matrix_hit_facts(1) demo_plugin_client t[THEN conjunct1] matrix_walk_trace
  show ?thesis by (intro conjI)
qed

text \<open>
  C1 as the spec states it fails on two kinds of hit. For a hit without a TMDB id no
  type is looked up and the fallback search is not called: the only event is the
  error text. For a hit that is neither a movie nor a series (here a person) the
  fallback search is called without any lookup, although the type first in the
  priority order is flagged in the hit and enabled.
\<close>

theorem priority_walk_needs_id_and_kind:
  "candidate demo_plugin no_id_hit (py ''magnet'')
   \<and> snd (get_resources_by_priority catalog_world demo_plugin no_id_hit (py ''ch'') (py ''u1'') rt0) =
       \<lparr>trace = [PostMessage (py ''ch'') (py ''u1'') MsgMissingTmdbId], ticks = 0\<rparr>
   \<and> candidate demo_plugin person_hit (py ''magnet'')
   \<and> truthy (getv person_hit (py ''tmdbid''))
   \<and> snd (get_resources_by_priority catalog_world demo_plugin person_hit (py ''ch'') (py ''u1'') rt0) =
       \<lparr>trace = [PostMessage (py ''ch'') (py ''u1'')
                   (MsgSwitchSearchAll (PStr (py ''The Matrix''))),
                 FallbackSearch (PStr (py ''The Matrix'')) (py ''ch'') (py ''u1'')],
        ticks = 0\<rparr>"
  by (simp add: get_resources_by_priority_def Let_def getv_def get_default_def no_id_hit_def
        person_hit_def candidate_def demo_plugin_def type_enabled_def fetch_resources_def
        fallback_to_moviepilot_search_def post_message_def emit_def rt0_def)

end
